theory Spec2Isabelle
  imports Complex_Main
begin

section \<open>Errors and array helpers\<close>

text \<open>
  The Python functions of \<^verbatim>\<open>vis_utils.py\<close> are embedded as HOL functions. Floating-point
  numbers are idealised as real numbers; a raised exception is the \<open>Inl\<close> branch of a sum.
  Arrays are lists: a matrix is the list of its rows.
\<close>

datatype py_error =
    KeyError string
  | IndexError
  | ValueError
  | LinAlgError
  | Exception string

type_synonym vec = "real list"
type_synonym mat = "real list list"

text \<open>The shape test \<open>r \<times> c\<close> of a two-dimensional array.\<close>

definition has_shape :: "nat \<Rightarrow> nat \<Rightarrow> mat \<Rightarrow> bool" where
  "has_shape r c M = (length M = r \<and> (\<forall>row \<in> set M. length row = c))"

definition dot :: "vec \<Rightarrow> vec \<Rightarrow> real" where
  "dot u v = sum_list (map2 (*) u v)"

text \<open>\<open>np.matmul\<close> of a matrix and a column vector.\<close>

definition mat_vec :: "mat \<Rightarrow> vec \<Rightarrow> vec" where
  "mat_vec M v = map (\<lambda>row. dot row v) M"

section \<open>Timestamp offset\<close>

text \<open>
  \<^verbatim>\<open>get_dataset_offset_camera_ts\<close>: the \<open>if/elif/else\<close> chain in the source's order.
\<close>

definition get_dataset_offset_camera_ts :: "string \<Rightarrow> py_error + real" where
  "get_dataset_offset_camera_ts dataset =
     (if dataset = ''scale'' then Inr 6300000000
      else if dataset = ''boreas'' then Inr 0
      else Inl (Exception ''Unknown dataset!''))"

section \<open>Point transformation\<close>

text \<open>A raw point record is a dictionary from field names to numbers.\<close>

type_synonym raw_point = "string \<rightharpoonup> real"

definition get_field :: "raw_point \<Rightarrow> string \<Rightarrow> py_error + real" where
  "get_field p k = (case p k of None \<Rightarrow> Inl (KeyError k) | Some v \<Rightarrow> Inr v)"

text \<open>
  The loop of \<^verbatim>\<open>transform_points\<close> that fills the \<open>N \<times> 3\<close> array: the fields are read in
  the order \<open>x\<close>, \<open>y\<close>, \<open>z\<close>, record after record, and the first missing key raises.
\<close>

fun read_points :: "raw_point list \<Rightarrow> py_error + mat" where
  "read_points [] = Inr []"
| "read_points (p # ps) =
     (case get_field p ''x'' of Inl e \<Rightarrow> Inl e | Inr x \<Rightarrow>
      case get_field p ''y'' of Inl e \<Rightarrow> Inl e | Inr y \<Rightarrow>
      case get_field p ''z'' of Inl e \<Rightarrow> Inl e | Inr z \<Rightarrow>
      case read_points ps of Inl e \<Rightarrow> Inl e | Inr rows \<Rightarrow> Inr ([x, y, z] # rows))"

text \<open>Python's \<open>int(\<dots>)\<close> of a float truncates towards zero.\<close>

definition py_int :: "real \<Rightarrow> int" where
  "py_int r = (if 0 \<le> r then \<lfloor>r\<rfloor> else \<lceil>r\<rceil>)"

text \<open>
  \<^verbatim>\<open>np.random.choice(n, k, replace=False)\<close> is numpy's: it draws a random permutation of
  \<open>range(n)\<close> and returns its first \<open>k\<close> entries, and raises \<open>ValueError\<close> when \<open>k\<close> is
  negative or larger than \<open>n\<close>. The permutation drawn is the argument \<open>perm\<close> of the model;
  \<open>is_permutation n perm\<close> says that it is one of the outcomes the generator can produce.
\<close>

definition is_permutation :: "nat \<Rightarrow> nat list \<Rightarrow> bool" where
  "is_permutation n perm = (length perm = n \<and> distinct perm \<and> (\<forall>i \<in> set perm. i < n))"

definition random_choice :: "nat list \<Rightarrow> nat \<Rightarrow> int \<Rightarrow> py_error + nat list" where
  "random_choice perm n k =
     (if k < 0 \<or> int n < k then Inl ValueError else Inr (take (nat k) perm))"

text \<open>Indexing an array by an array of indices: \<open>points[idx]\<close>.\<close>

definition gather :: "'a list \<Rightarrow> nat list \<Rightarrow> py_error + 'a list" where
  "gather xs idx =
     (if \<forall>i \<in> set idx. i < length xs then Inr (map (\<lambda>i. xs ! i) idx) else Inl IndexError)"

text \<open>
  \<^verbatim>\<open>transform_points(T, raw_pcd, keep_prob)\<close>. \<open>np.vstack((points.T, ones))\<close> appends a 1 to
  every point, \<open>np.matmul(T, \<dots>)\<close> needs four columns in \<open>T\<close>, and \<open>points.T[:]\<close> is the
  transposed product as it is: one row per retained point, one entry per row of \<open>T\<close>.
\<close>

definition transform_points :: "nat list \<Rightarrow> mat \<Rightarrow> raw_point list \<Rightarrow> real \<Rightarrow> py_error + mat" where
  "transform_points perm T raw_pcd keep_prob =
     (case read_points raw_pcd of Inl e \<Rightarrow> Inl e | Inr points \<Rightarrow>
      case random_choice perm (length raw_pcd) (py_int (keep_prob * real (length raw_pcd))) of
        Inl e \<Rightarrow> Inl e
      | Inr idx \<Rightarrow>
      case gather points idx of Inl e \<Rightarrow> Inl e | Inr kept \<Rightarrow>
        if T \<noteq> [] \<and> (\<forall>row \<in> set T. length row = 4)
        then Inr (map (\<lambda>p. mat_vec T (p @ [1])) kept)
        else Inl ValueError)"

text \<open>The coordinates of a record that has them.\<close>

definition xyz :: "raw_point \<Rightarrow> vec" where
  "xyz p = [the (p ''x''), the (p ''y''), the (p ''z'')]"

definition has_xyz :: "raw_point \<Rightarrow> bool" where
  "has_xyz p = (p ''x'' \<noteq> None \<and> p ''y'' \<noteq> None \<and> p ''z'' \<noteq> None)"

definition mk_point :: "real \<Rightarrow> real \<Rightarrow> real \<Rightarrow> raw_point" where
  "mk_point x y z = [''x'' \<mapsto> x, ''y'' \<mapsto> y, ''z'' \<mapsto> z]"

definition eye4 :: mat where
  "eye4 = [[1, 0, 0, 0], [0, 1, 0, 0], [0, 0, 1, 0], [0, 0, 0, 1]]"

definition cloud100 :: "raw_point list" where
  "cloud100 = map (\<lambda>i. mk_point (real i) 0 0) [0..<100]"

section \<open>Bilinear interpolation\<close>

text \<open>
  Indexing one axis of a numpy array: a negative index counts from the end, and an index
  outside \<open>[-n, n)\<close> raises \<open>IndexError\<close>.
\<close>

definition np_index :: "'a list \<Rightarrow> int \<Rightarrow> py_error + 'a" where
  "np_index xs i =
     (let n = int (length xs); j = (if i < 0 then i + n else i)
      in if 0 \<le> j \<and> j < n then Inr (xs ! nat j) else Inl IndexError)"

text \<open>
  The image is either a \<open>rows \<times> cols\<close> grid of numbers or a \<open>rows \<times> cols \<times> channels\<close> array
  (the source's comment on \<open>q11\<close> is \<open>N x 3\<close>): a list of rows, each a list of samples, a
  sample being a number or the list of its channel values. \<open>pixel img y x\<close> is \<open>img[y, x]\<close>.
  The array returned has one or two axes.
\<close>

type_synonym grid2 = "real list list"
type_synonym grid3 = "real list list list"

datatype image = Grid2 grid2 | Grid3 grid3

datatype ndarray = A1 "real list" | A2 "real list list"

definition grid_shape :: "nat \<Rightarrow> nat \<Rightarrow> 'a list list \<Rightarrow> bool" where
  "grid_shape h w img = (length img = h \<and> list_all (\<lambda>row. length row = w) img)"

definition pixel :: "'a list list \<Rightarrow> int \<Rightarrow> int \<Rightarrow> py_error + 'a" where
  "pixel img y x = (case np_index img y of Inl e \<Rightarrow> Inl e | Inr row \<Rightarrow> np_index row x)"

definition EPS :: real where
  "EPS = 1 / 10 ^ 14"

text \<open>\<open>a * s + b * t\<close> on rows, the scalars \<open>s\<close>, \<open>t\<close> broadcast along the row.\<close>

definition blend :: "vec \<Rightarrow> real \<Rightarrow> vec \<Rightarrow> real \<Rightarrow> vec" where
  "blend a s b t = map2 (\<lambda>u v. u * s + v * t) a b"

text \<open>
  The four gathers \<open>q11 = img[y1, x1]\<close>, \<open>q12 = img[y2, x1]\<close>, \<open>q21 = img[y1, x2]\<close>,
  \<open>q22 = img[y2, x2]\<close> for one query. The cast \<open>astype(np.int32)\<close> is the identity on the
  integers \<open>floor\<close> and \<open>ceil\<close> return for coordinates of magnitude below \<open>2^31\<close>.
\<close>

definition corner_samples :: "'a list list \<Rightarrow> real \<Rightarrow> real \<Rightarrow> py_error + 'a \<times> 'a \<times> 'a \<times> 'a" where
  "corner_samples img x y =
     (let x1 = \<lfloor>x\<rfloor>; x2 = \<lceil>x\<rceil>; y1 = \<lfloor>y\<rfloor>; y2 = \<lceil>y\<rceil> in
      case pixel img y1 x1 of Inl e \<Rightarrow> Inl e | Inr q11 \<Rightarrow>
      case pixel img y2 x1 of Inl e \<Rightarrow> Inl e | Inr q12 \<Rightarrow>
      case pixel img y1 x2 of Inl e \<Rightarrow> Inl e | Inr q21 \<Rightarrow>
      case pixel img y2 x2 of Inl e \<Rightarrow> Inl e | Inr q22 \<Rightarrow>
      Inr (q11, q12, q21, q22))"

text \<open>
  The arithmetic of \<^verbatim>\<open>bilinear_interp\<close> on the row of one query, with the source's names.
  The weights \<open>x_2\<close>, \<open>x_1\<close>, \<open>y_2\<close>, \<open>y_1\<close> have shape \<open>N \<times> 1\<close>, so in the row of a query they
  are its own scalars; \<open>q11\<close>, \<open>q12\<close>, \<open>q21\<close>, \<open>q22\<close> are the rows they multiply. The
  assignments \<open>f_y1[mask] = q11[mask]\<close> and \<open>f_y2[mask] = q22[mask]\<close>, with
  \<open>mask = np.where(x1 == x2)\<close>, overwrite the row of a query with \<open>x1 = x2\<close> by the rows
  \<open>m11\<close> and \<open>m22\<close>; \<open>f[mask] = f_y1[mask]\<close>, with \<open>mask = np.where(y1 == y2)\<close>, overwrites
  the row of a query with \<open>y1 = y2\<close> by its row of \<open>f_y1\<close>.
\<close>

definition interp_row ::
  "real \<Rightarrow> real \<Rightarrow> vec \<Rightarrow> vec \<Rightarrow> vec \<Rightarrow> vec \<Rightarrow> vec \<Rightarrow> vec \<Rightarrow> vec" where
  "interp_row x y q11 q12 q21 q22 m11 m22 =
     (let x1 = \<lfloor>x\<rfloor>; x2 = \<lceil>x\<rceil>; y1 = \<lfloor>y\<rfloor>; y2 = \<lceil>y\<rceil>;
          x_21 = real_of_int (x2 - x1) + EPS;
          x_2 = (real_of_int x2 - x) / x_21;
          x_1 = (x - real_of_int x1) / x_21;
          f_y1 = (if x1 = x2 then m11 else blend q11 x_2 q21 x_1);
          f_y2 = (if x1 = x2 then m22 else blend q12 x_2 q22 x_1);
          y_21 = real_of_int (y2 - y1) + EPS;
          y_2 = (real_of_int y2 - y) / y_21;
          y_1 = (y - real_of_int y1) / y_21;
          f = (if y1 = y2 then f_y1 else blend f_y1 y_2 f_y2 y_1)
      in f)"

text \<open>Running a fallible function over a list: the first error is the result.\<close>

fun collect :: "('a \<Rightarrow> py_error + 'b) \<Rightarrow> 'a list \<Rightarrow> py_error + 'b list" where
  "collect f [] = Inr []"
| "collect f (a # as) =
     (case f a of Inl e \<Rightarrow> Inl e | Inr b \<Rightarrow>
      case collect f as of Inl e \<Rightarrow> Inl e | Inr bs \<Rightarrow> Inr (b # bs))"

text \<open>
  The index arrays \<open>y1\<close>, \<open>x1\<close> of \<open>img[y1, x1]\<close> are broadcast together: a zero-dimensional
  \<open>y\<close> pairs with every \<open>x\<close>, arrays of the same length pair entry by entry, and arrays of
  different lengths raise \<open>IndexError\<close>. Here \<open>X\<close> does not have exactly one entry.
\<close>

definition index_pairs :: "real list \<Rightarrow> real list \<Rightarrow> py_error + (real \<times> real) list" where
  "index_pairs X Y =
     (if length Y = 1 then Inr (map (\<lambda>x. (x, hd Y)) X)
      else if length X = length Y then Inr (zip X Y)
      else Inl IndexError)"

text \<open>
  The number of channels \<open>C\<close> of a \<open>rows \<times> cols \<times> C\<close> image with at least one pixel, and
  \<open>f.squeeze()\<close> of an \<open>N \<times> C\<close> result with \<open>N \<noteq> 1\<close>: the channel axis is removed when it
  has length one.
\<close>

definition channels :: "grid3 \<Rightarrow> nat" where
  "channels img = (case concat img of [] \<Rightarrow> 0 | s # _ \<Rightarrow> length s)"

definition squeeze_rows :: "nat \<Rightarrow> real list list \<Rightarrow> ndarray" where
  "squeeze_rows c rows = (if c = 1 then A1 (map hd rows) else A2 rows)"

text \<open>
  \<^verbatim>\<open>bilinear_interp(img, X, Y)\<close> on one-dimensional coordinate arrays \<open>X\<close>, \<open>Y\<close>, in the order
  of the source.

  \<^item> \<open>np.array(X).squeeze()\<close> makes a one-element array zero-dimensional, and
    \<open>np.where(x1 == x2)\<close> on a zero-dimensional array raises \<open>ValueError\<close> (numpy releases
    that only deprecated the call went on). The same holds for \<open>Y\<close> at
    \<open>np.where(y1 == y2)\<close>, after the gathers and the interpolation along \<open>x\<close>.
  \<^item> On an image with a channel axis, \<open>q11\<close> is \<open>N \<times> C\<close> and every operation is per query.
  \<^item> On a \<open>rows \<times> cols\<close> grid, \<open>q11\<close> has shape \<open>N\<close> and \<open>q11 * x_2\<close> broadcasts to
    \<open>N \<times> N\<close>: the row of a query holds the samples of all the queries, weighted by its own
    weights. \<open>f_y1[mask] = q11[mask]\<close> then assigns \<open>k\<close> values to \<open>k\<close> rows of length \<open>N\<close>,
    which broadcasts only when \<open>k = N\<close> (every masked row becomes the row of samples) or
    \<open>k = 1\<close> (the masked row is filled with its own sample) and raises \<open>ValueError\<close>
    otherwise.
\<close>

definition bilinear_interp :: "image \<Rightarrow> real list \<Rightarrow> real list \<Rightarrow> py_error + ndarray" where
  "bilinear_interp img X Y =
     (if length X = 1 then Inl ValueError
      else case index_pairs X Y of Inl e \<Rightarrow> Inl e | Inr P \<Rightarrow>
        (case img of
           Grid3 g \<Rightarrow>
             (case collect (\<lambda>(x, y). corner_samples g x y) P of Inl e \<Rightarrow> Inl e | Inr Q \<Rightarrow>
                if length Y = 1 then Inl ValueError
                else Inr (squeeze_rows (channels g)
                  (map2 (\<lambda>(x, y) (q11, q12, q21, q22). interp_row x y q11 q12 q21 q22 q11 q22)
                     P Q)))
         | Grid2 g \<Rightarrow>
             (case collect (\<lambda>(x, y). corner_samples g x y) P of Inl e \<Rightarrow> Inl e | Inr Q \<Rightarrow>
                let N = length X;
                    k = length (filter (\<lambda>x. \<lfloor>x\<rfloor> = \<lceil>x\<rceil>) X);
                    v11 = map (\<lambda>(q11, q12, q21, q22). q11) Q;
                    v12 = map (\<lambda>(q11, q12, q21, q22). q12) Q;
                    v21 = map (\<lambda>(q11, q12, q21, q22). q21) Q;
                    v22 = map (\<lambda>(q11, q12, q21, q22). q22) Q
                in if k \<noteq> N \<and> k \<noteq> 1 then Inl ValueError
                   else if length Y = 1 then Inl ValueError
                   else Inr (A2
                     (map2 (\<lambda>(x, y) (q11, q12, q21, q22).
                          interp_row x y v11 v12 v21 v22
                            (if k = N then v11 else replicate N q11)
                            (if k = N then v22 else replicate N q22))
                        P Q)))))"

text \<open>A query at a grid vertex: both coordinates are integers inside the grid.\<close>

definition at_vertex :: "'a list list \<Rightarrow> real \<Rightarrow> real \<Rightarrow> bool" where
  "at_vertex img x y =
     (x = real_of_int \<lfloor>x\<rfloor> \<and> y = real_of_int \<lfloor>y\<rfloor> \<and>
      0 \<le> \<lfloor>y\<rfloor> \<and> \<lfloor>y\<rfloor> < int (length img) \<and>
      0 \<le> \<lfloor>x\<rfloor> \<and> \<lfloor>x\<rfloor> < int (length (img ! nat \<lfloor>y\<rfloor>)))"

text \<open>A query just left of the grid: \<open>-1 < x < 0\<close>, and \<open>y\<close> an integer row index below \<open>h\<close>.\<close>

definition near_left_edge :: "nat \<Rightarrow> real \<Rightarrow> real \<Rightarrow> bool" where
  "near_left_edge h x y =
     (- 1 < x \<and> x < 0 \<and> y = real_of_int \<lfloor>y\<rfloor> \<and> 0 \<le> \<lfloor>y\<rfloor> \<and> \<lfloor>y\<rfloor> < int h)"

definition img23 :: grid3 where
  "img23 = [[[10], [20], [30]], [[40], [50], [60]]]"

definition grid23 :: grid2 where
  "grid23 = [[10, 20, 30], [40, 50, 60]]"

section \<open>Rotation algebra\<close>

text \<open>Matrix helpers: the number of columns, a column, the transpose and \<open>np.matmul\<close>.\<close>

definition ncols :: "mat \<Rightarrow> nat" where
  "ncols M = (case M of [] \<Rightarrow> 0 | r # _ \<Rightarrow> length r)"

definition col :: "nat \<Rightarrow> mat \<Rightarrow> vec" where
  "col j M = map (\<lambda>r. r ! j) M"

definition mat_T :: "mat \<Rightarrow> mat" where
  "mat_T M = map (\<lambda>j. col j M) [0..<ncols M]"

definition mat_mul :: "mat \<Rightarrow> mat \<Rightarrow> mat" where
  "mat_mul A B = map (\<lambda>row. map (\<lambda>j. dot row (col j B)) [0..<ncols B]) A"

text \<open>\<^verbatim>\<open>rot_x\<close>, \<^verbatim>\<open>rot_y\<close>, \<^verbatim>\<open>rot_z\<close>: the rotation matrices as the source writes them.\<close>

definition rot_x :: "real \<Rightarrow> mat" where
  "rot_x alpha = [[1, 0, 0],
                  [0, cos alpha, - sin alpha],
                  [0, sin alpha, cos alpha]]"

definition rot_y :: "real \<Rightarrow> mat" where
  "rot_y beta = [[cos beta, 0, sin beta],
                 [0, 1, 0],
                 [- sin beta, 0, cos beta]]"

definition rot_z :: "real \<Rightarrow> mat" where
  "rot_z gamma = [[cos gamma, - sin gamma, 0],
                  [sin gamma, cos gamma, 0],
                  [0, 0, 1]]"

text \<open>
  \<open>np.arctan2(y, x)\<close>: the angle of the point \<open>(x, y)\<close> in \<open>(-\<pi>, \<pi>]\<close>, and 0 at the origin
  (the reals have no signed zero).
\<close>

definition arctan2 :: "real \<Rightarrow> real \<Rightarrow> real" where
  "arctan2 y x =
     (if 0 < x then arctan (y / x)
      else if x < 0 then (if 0 \<le> y then arctan (y / x) + pi else arctan (y / x) - pi)
      else if 0 < y then pi / 2
      else if y < 0 then - (pi / 2)
      else 0)"

text \<open>\<open>C[i, j]\<close> of a matrix that has the entry.\<close>

definition entry :: "mat \<Rightarrow> nat \<Rightarrow> nat \<Rightarrow> real" where
  "entry C i j = C ! i ! j"

text \<open>
  \<^verbatim>\<open>rot_to_yaw_pitch_roll(C, eps)\<close> with the source's indices \<open>i = 2\<close>, \<open>j = 1\<close>, \<open>k = 0\<close>. Reading
  an entry of an array smaller than \<open>3 \<times> 3\<close> raises \<open>IndexError\<close>.
\<close>

definition rot_to_yaw_pitch_roll :: "mat \<Rightarrow> real \<Rightarrow> py_error + real \<times> real \<times> real" where
  "rot_to_yaw_pitch_roll C eps =
     (if \<not> (3 \<le> length C \<and> list_all (\<lambda>row. 3 \<le> length row) C) then Inl IndexError
      else
        let i = 2; j = 1; k = 0;
            c_y = sqrt ((entry C i i)\<^sup>2 + (entry C j i)\<^sup>2)
        in if c_y > eps
           then let roll = arctan2 (entry C j i) (entry C i i);
                    pitch = arctan2 (- entry C k i) c_y;
                    yaw = arctan2 (entry C k j) (entry C k k)
                in Inr (yaw, pitch, roll)
           else let roll = 0;
                    pitch = arctan2 (- entry C k i) c_y;
                    yaw = arctan2 (- entry C j k) (entry C j j)
                in Inr (yaw, pitch, roll))"

text \<open>The default \<open>eps=1e-15\<close> of the source.\<close>

definition eps_default :: real where
  "eps_default = 1 / 10 ^ 15"

section \<open>Pose resolver\<close>

text \<open>
  The item assignments \<open>a[i] = -a[i]\<close> and \<open>a[i] = v\<close> on a one-dimensional array; an index
  past the end raises \<open>IndexError\<close>.
\<close>

definition negate_at :: "vec \<Rightarrow> nat \<Rightarrow> py_error + vec" where
  "negate_at v i = (if i < length v then Inr (v[i := - (v ! i)]) else Inl IndexError)"

definition set_at :: "vec \<Rightarrow> nat \<Rightarrow> real \<Rightarrow> py_error + vec" where
  "set_at v i a = (if i < length v then Inr (v[i := a]) else Inl IndexError)"

text \<open>
  The first four statements of \<^verbatim>\<open>velodyne_frame_from_imu\<close>: \<open>-np.roll(raw_heading, -1)\<close> is a
  new array, the input shifted left by one place and negated; then the entries 0, 1 and 2
  are negated in place.
\<close>

definition reorder_heading :: "vec \<Rightarrow> py_error + vec" where
  "reorder_heading raw_heading =
     (case negate_at (map uminus (rotate1 raw_heading)) 0 of Inl e \<Rightarrow> Inl e | Inr h0 \<Rightarrow>
      case negate_at h0 1 of Inl e \<Rightarrow> Inl e | Inr h1 \<Rightarrow>
      negate_at h1 2)"

text \<open>
  \<open>R.from_quat(q).as_matrix()\<close> is scipy's. \<open>from_quat\<close> wants four components in the order
  \<open>(x, y, z, w)\<close>, scalar last, and normalises them; a quaternion of norm zero or of another
  length raises \<open>ValueError\<close>. \<open>as_matrix\<close> is the rotation matrix of the unit quaternion.
\<close>

definition from_quat :: "vec \<Rightarrow> py_error + vec" where
  "from_quat q =
     (if length q \<noteq> 4 then Inl ValueError
      else let n = sqrt (sum_list (map (\<lambda>a. a * a) q))
           in if n = 0 then Inl ValueError else Inr (map (\<lambda>a. a / n) q))"

definition as_matrix :: "vec \<Rightarrow> mat" where
  "as_matrix q =
     (let x = q ! 0; y = q ! 1; z = q ! 2; w = q ! 3 in
      [[x * x - y * y - z * z + w * w, 2 * (x * y - z * w), 2 * (x * z + y * w)],
       [2 * (x * y + z * w), - (x * x) + y * y - z * z + w * w, 2 * (y * z - x * w)],
       [2 * (x * z - y * w), 2 * (y * z + x * w), - (x * x) - y * y + z * z + w * w]])"

definition quat_to_matrix :: "vec \<Rightarrow> py_error + mat" where
  "quat_to_matrix q = (case from_quat q of Inl e \<Rightarrow> Inl e | Inr u \<Rightarrow> Inr (as_matrix u))"

text \<open>\<open>np.matmul\<close> of two matrices: the inner dimensions must agree.\<close>

definition matmul :: "mat \<Rightarrow> mat \<Rightarrow> py_error + mat" where
  "matmul A B = (if ncols A = length B then Inr (mat_mul A B) else Inl ValueError)"

text \<open>
  \<open>np.linalg.inv\<close> is numpy's: it raises \<open>LinAlgError\<close> on a matrix that is not square and on
  a singular one. Over the reals the inverse is the adjugate over the determinant; the
  determinant is expanded along the first row.
\<close>

definition del_nth :: "nat \<Rightarrow> 'a list \<Rightarrow> 'a list" where
  "del_nth i xs = take i xs @ drop (Suc i) xs"

fun det :: "mat \<Rightarrow> real" where
  "det [] = 1"
| "det (r # rs) =
     sum_list (map (\<lambda>j. (- 1) ^ j * (r ! j) * det (map (del_nth j) rs)) [0..<length r])"

definition cofactor :: "mat \<Rightarrow> nat \<Rightarrow> nat \<Rightarrow> real" where
  "cofactor M i j = (- 1) ^ (i + j) * det (map (del_nth j) (del_nth i M))"

definition linalg_inv :: "mat \<Rightarrow> py_error + mat" where
  "linalg_inv M =
     (let n = length M in
      if \<not> list_all (\<lambda>row. length row = n) M then Inl LinAlgError
      else if det M = 0 then Inl LinAlgError
      else Inr (map (\<lambda>i. map (\<lambda>j. cofactor M j i / det M) [0..<n]) [0..<n]))"

text \<open>\<^verbatim>\<open>to_T(C, r)\<close>: the column \<open>r\<close> appended to \<open>C\<close>, and the row \<open>[0, 0, 0, 1]\<close> below.\<close>

definition to_T :: "mat \<Rightarrow> vec \<Rightarrow> mat" where
  "to_T C r = map2 (\<lambda>row a. row @ [a]) C r @ [[0, 0, 0, 1]]"

text \<open>
  The transform from IMU to Velodyne: the hard-coded default when \<open>T_iv\<close> is \<open>None\<close>, otherwise
  the inverse of \<open>T_iv\<close> and its upper left \<open>3 \<times> 3\<close> block \<open>T_vi[0:3, 0:3]\<close>.
\<close>

definition extrinsic :: "mat option \<Rightarrow> py_error + mat \<times> mat" where
  "extrinsic T_iv =
     (case T_iv of
        None \<Rightarrow>
          let C_iv = [[0, - 1, 0], [1, 0, 0], [0, 0, 1]];
              C_vi = mat_T C_iv;
              r_vi = [0, 0, 45 / 100];
              r_iv = map uminus (mat_vec C_vi r_vi);
              T_vi = to_T C_vi r_iv
          in Inr (T_vi, C_vi)
      | Some M \<Rightarrow>
          (case linalg_inv M of Inl e \<Rightarrow> Inl e
           | Inr T_vi \<Rightarrow> Inr (T_vi, map (take 3) (take 3 T_vi))))"

text \<open>
  \<^verbatim>\<open>velodyne_frame_from_imu(raw_heading, r_io, T_iv)\<close>; the column vector \<open>r_io\<close> is the list of
  its entries. After its first statement \<open>raw_heading\<close> names the reordered array, and
  \<open>raw_heading_yaw = raw_heading\<close> is that same array, whose entries 0 and 1 are then set
  to 0. The result is the pair \<open>(T_vo, C_vo_yaw)\<close>.
\<close>

definition velodyne_frame_from_imu :: "vec \<Rightarrow> vec \<Rightarrow> mat option \<Rightarrow> py_error + mat \<times> mat" where
  "velodyne_frame_from_imu raw_heading0 r_io T_iv =
     (case reorder_heading raw_heading0 of Inl e \<Rightarrow> Inl e | Inr raw_heading \<Rightarrow>
      case quat_to_matrix raw_heading of Inl e \<Rightarrow> Inl e | Inr C_io \<Rightarrow>
      if length r_io \<noteq> 3 then Inl ValueError
      else
        let r_oi = map uminus (mat_vec C_io r_io);
            T_io = to_T C_io r_oi in
        case extrinsic T_iv of Inl e \<Rightarrow> Inl e | Inr (T_vi, C_vi) \<Rightarrow>
        case matmul T_vi T_io of Inl e \<Rightarrow> Inl e | Inr T_vo \<Rightarrow>
        case set_at raw_heading 0 0 of Inl e \<Rightarrow> Inl e | Inr h0 \<Rightarrow>
        case set_at h0 1 0 of Inl e \<Rightarrow> Inl e | Inr raw_heading_yaw \<Rightarrow>
        case quat_to_matrix raw_heading_yaw of Inl e \<Rightarrow> Inl e | Inr C_io_yaw \<Rightarrow>
        case matmul C_vi C_io_yaw of Inl e \<Rightarrow> Inl e | Inr C_vo_yaw \<Rightarrow>
        Inr (T_vo, C_vo_yaw))"

text \<open>
  What the specification says of the preprocessing, for comparison with \<open>reorder_heading\<close>:
  a cyclic rotation of the components and a sign flip on the vector part (the first three
  components of a scalar-last quaternion).
\<close>

definition spec_preprocess :: "vec \<Rightarrow> vec" where
  "spec_preprocess q = (let r = rotate1 q in [- (r ! 0), - (r ! 1), - (r ! 2), r ! 3])"

text \<open>
  What the specification says of the yaw-only rotation, for comparison with the second
  component of \<open>velodyne_frame_from_imu\<close>: the entries 0 and 1 of the original quaternion set
  to 0, converted to a rotation and premultiplied by the extrinsic rotation.
\<close>

definition spec_C_yaw :: "vec \<Rightarrow> mat option \<Rightarrow> py_error + mat" where
  "spec_C_yaw raw_heading T_iv =
     (case extrinsic T_iv of Inl e \<Rightarrow> Inl e | Inr (T_vi, C_vi) \<Rightarrow>
      case quat_to_matrix (raw_heading[0 := 0, 1 := 0]) of Inl e \<Rightarrow> Inl e
      | Inr C \<Rightarrow> matmul C_vi C)"

text \<open>The orthonormality of a \<open>3 \<times> 3\<close> matrix: \<open>C \<cdot> C\<^sup>T = I\<close>.\<close>

definition eye3 :: mat where
  "eye3 = [[1, 0, 0], [0, 1, 0], [0, 0, 1]]"

definition orthonormal :: "mat \<Rightarrow> bool" where
  "orthonormal C = (mat_mul C (mat_T C) = eye3)"

text \<open>An extrinsic that is not a rigid transform: it scales by 2.\<close>

definition scale4 :: mat where
  "scale4 = [[2, 0, 0, 0], [0, 2, 0, 0], [0, 0, 2, 0], [0, 0, 0, 1]]"

section \<open>Properties of the timestamp offset\<close>

text \<open>
  C9. \<^verbatim>\<open>get_dataset_offset_camera_ts\<close> returns 0 for \<open>boreas\<close>, 6.3e9 for \<open>scale\<close>, and
  raises for every other string: there is no silent default.
\<close>

theorem dataset_offset_cases:
  "get_dataset_offset_camera_ts ''boreas'' = Inr 0 \<and>
   get_dataset_offset_camera_ts ''scale'' = Inr (63 * 10 ^ 8) \<and>
   (\<forall>d. d \<noteq> ''boreas'' \<and> d \<noteq> ''scale'' \<longrightarrow>
        get_dataset_offset_camera_ts d = Inl (Exception ''Unknown dataset!''))"
  by (simp add: get_dataset_offset_camera_ts_def)

theorem dataset_offset_cases_witness:
  "''kitti'' \<noteq> ''boreas'' \<and> ''kitti'' \<noteq> ''scale'' \<and>
   get_dataset_offset_camera_ts ''kitti'' = Inl (Exception ''Unknown dataset!'')"
  using dataset_offset_cases by simp

section \<open>Properties of the point transformation\<close>

lemma get_field_has_xyz:
  "has_xyz p \<Longrightarrow>
     get_field p ''x'' = Inr (the (p ''x'')) \<and> get_field p ''y'' = Inr (the (p ''y'')) \<and>
     get_field p ''z'' = Inr (the (p ''z''))"
  by (auto simp: has_xyz_def get_field_def)

lemma read_points_ok: "list_all has_xyz ps \<Longrightarrow> read_points ps = Inr (map xyz ps)"
  by (induction ps) (simp_all add: get_field_has_xyz xyz_def)

lemma py_int_of_nat: "py_int (real n) = int n"
  by (simp add: py_int_def)

lemma take_permutation:
  assumes "is_permutation n perm" and "k \<le> n"
  shows "length (take k perm) = k" and "distinct (take k perm)"
    and "\<forall>i \<in> set (take k perm). i < n"
  using assms by (auto simp: is_permutation_def dest: in_set_takeD)

lemma mat_vec_length: "length (mat_vec T v) = length T"
  by (simp add: mat_vec_def)

text \<open>
  What \<^verbatim>\<open>transform_points\<close> returns when the draw keeps \<open>k\<close> points: the images under \<open>T\<close>
  of the points selected by the first \<open>k\<close> entries of the permutation, in that order.
\<close>

lemma transform_points_draw:
  assumes T: "has_shape 4 4 T" and xs: "list_all has_xyz raw_pcd"
    and perm: "is_permutation (length raw_pcd) perm"
    and k: "py_int (keep_prob * real (length raw_pcd)) = int k" "k \<le> length raw_pcd"
  shows "transform_points perm T raw_pcd keep_prob =
           Inr (map (\<lambda>i. mat_vec T (xyz (raw_pcd ! i) @ [1])) (take k perm))"
proof -
  have in_range: "\<forall>i \<in> set (take k perm). i < length (map xyz raw_pcd)"
    using take_permutation(3)[OF perm k(2)] by simp
  have T': "T \<noteq> [] \<and> (\<forall>row \<in> set T. length row = 4)"
    using T by (auto simp: has_shape_def)
  have "map (\<lambda>p. mat_vec T (p @ [1])) (map (\<lambda>i. map xyz raw_pcd ! i) (take k perm))
        = map (\<lambda>i. mat_vec T (xyz (raw_pcd ! i) @ [1])) (take k perm)"
    using in_range by (simp add: comp_def)
  then show ?thesis
    using in_range T' k
    by (simp add: transform_points_def read_points_ok[OF xs] random_choice_def gather_def)
qed

text \<open>
  C1, as stated, fails: with \<open>keep_prob = 1.0\<close> the draw is a random permutation of all the
  indices, so row \<open>i\<close> is the image of point \<open>perm[i]\<close>, and \<open>points.T[:]\<close> keeps the
  homogeneous coordinate, so a row has four entries. With the draw \<open>[1, 0]\<close> and the
  identity transform, row 0 is \<open>[5, 6, 7, 1]\<close>: neither three entries wide nor the image of
  the first point \<open>(1, 2, 3)\<close>.
\<close>

theorem transform_points_keep_all_counterexample:
  "transform_points [1, 0] eye4 [mk_point 1 2 3, mk_point 5 6 7] 1
     = Inr [[5, 6, 7, 1], [1, 2, 3, 1]] \<and>
   [5, 6, 7, 1] \<noteq> take 3 (mat_vec eye4 (xyz (mk_point 1 2 3) @ [1]))"
  by (simp add: transform_points_def get_field_def mk_point_def py_int_def random_choice_def
      gather_def eye4_def mat_vec_def dot_def xyz_def)

text \<open>
  C1, amended. For every \<open>4 \<times> 4\<close> transform \<open>T\<close>, every non-empty sequence of \<open>N\<close> raw point
  records with \<open>x\<close>, \<open>y\<close>, \<open>z\<close> fields and every outcome \<open>perm\<close> of the draw,
  \<^verbatim>\<open>transform_points(T, raw_pcd, 1.0)\<close> returns exactly \<open>N\<close> rows, and the first three
  entries of row \<open>i\<close> are the first three rows of \<open>T \<cdot> [p; 1]\<close> for the original point \<open>p\<close>
  of index \<open>perm[i]\<close>: every point is transformed once, in the order drawn.
\<close>

theorem transform_points_keep_all:
  assumes "has_shape 4 4 T" and "raw_pcd \<noteq> []" and "list_all has_xyz raw_pcd"
    and "is_permutation (length raw_pcd) perm"
  shows "\<exists>rows. transform_points perm T raw_pcd 1 = Inr rows \<and>
           length rows = length raw_pcd \<and>
           (\<forall>i < length raw_pcd.
              take 3 (rows ! i) = take 3 (mat_vec T (xyz (raw_pcd ! (perm ! i)) @ [1])))"
proof -
  let ?n = "length raw_pcd"
  have len: "length perm = ?n" using assms(4) by (simp add: is_permutation_def)
  have "transform_points perm T raw_pcd 1 =
          Inr (map (\<lambda>i. mat_vec T (xyz (raw_pcd ! i) @ [1])) (take ?n perm))"
    by (rule transform_points_draw[OF assms(1,3,4)]) (simp_all add: py_int_of_nat)
  then show ?thesis
    using len by simp
qed

theorem transform_points_keep_all_witness:
  "has_shape 4 4 eye4 \<and> [mk_point 1 2 3, mk_point 5 6 7] \<noteq> [] \<and>
   list_all has_xyz [mk_point 1 2 3, mk_point 5 6 7] \<and>
   is_permutation (length [mk_point 1 2 3, mk_point 5 6 7]) [1, 0] \<and>
   (\<exists>rows. transform_points [1, 0] eye4 [mk_point 1 2 3, mk_point 5 6 7] 1 = Inr rows \<and>
      length rows = 2 \<and> take 3 (rows ! 0) = take 3 (mat_vec eye4 (xyz (mk_point 5 6 7) @ [1])))"
proof -
  have h1: "has_shape 4 4 eye4" by (simp add: has_shape_def eye4_def)
  have h2: "[mk_point 1 2 3, mk_point 5 6 7] \<noteq> []" by simp
  have h3: "list_all has_xyz [mk_point 1 2 3, mk_point 5 6 7]"
    by (simp add: has_xyz_def mk_point_def)
  have h4: "is_permutation (length [mk_point 1 2 3, mk_point 5 6 7]) [1, 0]"
    by (simp add: is_permutation_def)
  from transform_points_keep_all[OF h1 h2 h3 h4]
  obtain rows where r: "transform_points [1, 0] eye4 [mk_point 1 2 3, mk_point 5 6 7] 1 = Inr rows"
      "length rows = length [mk_point 1 2 3, mk_point 5 6 7]"
      "\<forall>i < length [mk_point 1 2 3, mk_point 5 6 7].
         take 3 (rows ! i) =
         take 3 (mat_vec eye4 (xyz ([mk_point 1 2 3, mk_point 5 6 7] ! ([1, 0] ! i)) @ [1]))"
    by blast
  have "length rows = 2" using r(2) by simp
  moreover have "take 3 (rows ! 0) = take 3 (mat_vec eye4 (xyz (mk_point 5 6 7) @ [1]))"
    using r(3) by simp
  ultimately show ?thesis using r(1) h1 h2 h3 h4 by blast
qed

text \<open>
  C8. With \<open>N = 100\<close> records and \<open>keep_prob = 0.5\<close>, for every outcome of the draw,
  \<^verbatim>\<open>transform_points\<close> returns exactly 50 rows; they come from 50 distinct indices below
  100 (the first 50 entries of the permutation drawn), so no original point contributes
  twice, and each row is \<open>T \<cdot> [p; 1]\<close> for the original point \<open>p\<close> of its index.
\<close>

theorem transform_points_keep_half:
  assumes "has_shape 4 4 T" and "length raw_pcd = 100" and "list_all has_xyz raw_pcd"
    and "is_permutation 100 perm"
  shows "\<exists>rows idx. transform_points perm T raw_pcd (1 / 2) = Inr rows \<and>
           length rows = 50 \<and> length idx = 50 \<and> distinct idx \<and>
           (\<forall>j < 50. idx ! j < 100 \<and>
                     rows ! j = mat_vec T (xyz (raw_pcd ! (idx ! j)) @ [1]))"
proof -
  have perm: "is_permutation (length raw_pcd) perm" using assms(2,4) by simp
  have k: "py_int (1 / 2 * real (length raw_pcd)) = int 50" "50 \<le> length raw_pcd"
    using assms(2) by (simp_all add: py_int_def)
  have res: "transform_points perm T raw_pcd (1 / 2) =
          Inr (map (\<lambda>i. mat_vec T (xyz (raw_pcd ! i) @ [1])) (take 50 perm))"
    by (rule transform_points_draw[OF assms(1,3) perm k])
  have idx: "length (take 50 perm) = 50" "distinct (take 50 perm)"
    "\<forall>i \<in> set (take 50 perm). i < 100"
    using take_permutation[OF assms(4), of 50] by simp_all
  have "\<forall>j < 50. take 50 perm ! j < 100"
    using idx(1,3) by (metis nth_mem)
  with res idx show ?thesis
    by (intro exI[of _ "map (\<lambda>i. mat_vec T (xyz (raw_pcd ! i) @ [1])) (take 50 perm)"]
        exI[of _ "take 50 perm"]) simp
qed

theorem transform_points_keep_half_witness:
  "has_shape 4 4 eye4 \<and> length cloud100 = 100 \<and> list_all has_xyz cloud100 \<and>
   is_permutation 100 (rev [0..<100]) \<and>
   (\<exists>rows idx. transform_points (rev [0..<100]) eye4 cloud100 (1 / 2) = Inr rows \<and>
      length rows = 50 \<and> length (idx :: nat list) = 50 \<and> distinct idx)"
proof -
  have h1: "has_shape 4 4 eye4" by (simp add: has_shape_def eye4_def)
  have h2: "length cloud100 = 100" by (simp add: cloud100_def)
  have h3: "list_all has_xyz cloud100"
    by (simp add: cloud100_def list_all_iff has_xyz_def mk_point_def)
  have h4: "is_permutation 100 (rev [0..<100])" by (simp add: is_permutation_def)
  from transform_points_keep_half[OF h1 h2 h3 h4]
  obtain rows idx where "transform_points (rev [0..<100]) eye4 cloud100 (1 / 2) = Inr rows"
      "length rows = 50" "length (idx :: nat list) = 50" "distinct idx"
    by blast
  then have "\<exists>rows idx. transform_points (rev [0..<100]) eye4 cloud100 (1 / 2) = Inr rows \<and>
      length rows = 50 \<and> length (idx :: nat list) = 50 \<and> distinct idx"
    by blast
  with h1 h2 h3 h4 show ?thesis by simp
qed

section \<open>Properties of the bilinear interpolation\<close>

lemma collect_map:
  "(\<And>a. a \<in> set as \<Longrightarrow> f a = Inr (g a)) \<Longrightarrow> collect f as = Inr (map g as)"
  by (induction as) simp_all

lemma map2_map_same: "map2 f xs (map g xs) = map (\<lambda>x. f x (g x)) xs"
  by (induction xs) simp_all

lemma np_index_nonneg:
  "0 \<le> i \<Longrightarrow> i < int (length xs) \<Longrightarrow> np_index xs i = Inr (xs ! nat i)"
  by (simp add: np_index_def)

lemma np_index_minus_one:
  "xs \<noteq> [] \<Longrightarrow> np_index xs (- 1) = Inr (xs ! (length xs - 1))"
  by (cases xs) (simp_all add: np_index_def Let_def nat_add_distrib)

lemma pixel_in_bounds:
  "0 \<le> y \<Longrightarrow> y < int (length img) \<Longrightarrow> 0 \<le> x \<Longrightarrow> x < int (length (img ! nat y)) \<Longrightarrow>
     pixel img y x = Inr (img ! nat y ! nat x)"
  by (simp add: pixel_def np_index_nonneg)

lemma ceiling_of_floor_eq: "x = real_of_int \<lfloor>x\<rfloor> \<Longrightarrow> \<lceil>x\<rceil> = \<lfloor>x\<rfloor>"
  by (metis ceiling_of_int)

lemma corner_samples_vertex:
  assumes "at_vertex img x y"
  shows "corner_samples img x y =
           Inr (img ! nat \<lfloor>y\<rfloor> ! nat \<lfloor>x\<rfloor>, img ! nat \<lfloor>y\<rfloor> ! nat \<lfloor>x\<rfloor>,
                img ! nat \<lfloor>y\<rfloor> ! nat \<lfloor>x\<rfloor>, img ! nat \<lfloor>y\<rfloor> ! nat \<lfloor>x\<rfloor>)"
proof -
  have cx: "\<lceil>x\<rceil> = \<lfloor>x\<rfloor>" and cy: "\<lceil>y\<rceil> = \<lfloor>y\<rfloor>"
    using assms by (auto simp: at_vertex_def intro: ceiling_of_floor_eq)
  have px: "pixel img \<lfloor>y\<rfloor> \<lfloor>x\<rfloor> = Inr (img ! nat \<lfloor>y\<rfloor> ! nat \<lfloor>x\<rfloor>)"
    using assms by (intro pixel_in_bounds) (simp_all add: at_vertex_def)
  show ?thesis
    by (simp add: corner_samples_def cx cy px Let_def)
qed

lemma interp_row_vertex:
  assumes "at_vertex img x y"
  shows "interp_row x y q11 q12 q21 q22 m11 m22 = m11"
proof -
  have cx: "\<lceil>x\<rceil> = \<lfloor>x\<rfloor>" and cy: "\<lceil>y\<rceil> = \<lfloor>y\<rfloor>"
    using assms by (auto simp: at_vertex_def intro: ceiling_of_floor_eq)
  show ?thesis by (simp add: interp_row_def cx cy Let_def)
qed

text \<open>
  A coordinate array of one element: \<open>squeeze\<close> makes it zero-dimensional and
  \<open>np.where(x1 == x2)\<close> raises, whatever the image and the coordinates.
\<close>

lemma bilinear_interp_one_query: "bilinear_interp img [x] Y = Inl ValueError"
  by (simp add: bilinear_interp_def)

text \<open>
  Two or more queries at grid vertices of an image with a channel axis: \<open>floor = ceil\<close> on both
  axes, \<open>f_y1\<close> is overwritten by \<open>q11\<close> and \<open>f\<close> by \<open>f_y1\<close>, so the row of each query is
  \<open>img[y, x]\<close> itself.
\<close>

lemma bilinear_interp_vertex_batch:
  assumes v: "list_all2 (at_vertex g) X Y" and n: "length X \<noteq> 1"
  shows "bilinear_interp (Grid3 g) X Y =
           Inr (squeeze_rows (channels g) (map2 (\<lambda>x y. g ! nat \<lfloor>y\<rfloor> ! nat \<lfloor>x\<rfloor>) X Y))"
proof -
  let ?s = "\<lambda>(x, y). g ! nat \<lfloor>y\<rfloor> ! nat \<lfloor>x\<rfloor>"
  have len: "length X = length Y"
    using v by (rule list_all2_lengthD)
  then have ny: "length Y \<noteq> 1" using n by simp
  have P: "index_pairs X Y = Inr (zip X Y)"
    using len ny by (simp add: index_pairs_def)
  have av: "\<And>a. a \<in> set (zip X Y) \<Longrightarrow> at_vertex g (fst a) (snd a)"
    using v by (auto simp: list_all2_iff)
  have "\<And>a. a \<in> set (zip X Y) \<Longrightarrow>
          (\<lambda>(x, y). corner_samples g x y) a = Inr ((\<lambda>a. (?s a, ?s a, ?s a, ?s a)) a)"
    using av by (auto simp: corner_samples_vertex)
  then have Q: "collect (\<lambda>(x, y). corner_samples g x y) (zip X Y)
               = Inr (map (\<lambda>a. (?s a, ?s a, ?s a, ?s a)) (zip X Y))"
    by (rule collect_map)
  have rows: "map2 (\<lambda>(x, y) (q11, q12, q21, q22). interp_row x y q11 q12 q21 q22 q11 q22)
          (zip X Y) (map (\<lambda>a. (?s a, ?s a, ?s a, ?s a)) (zip X Y))
        = map ?s (zip X Y)"
    unfolding map2_map_same using av
    by (intro map_cong) (auto simp: interp_row_vertex[of g])
  show ?thesis
    using n ny by (simp add: bilinear_interp_def P Q rows)
qed

text \<open>
  On a \<open>rows \<times> cols\<close> grid two queries give a \<open>2 \<times> 2\<close> array: each row holds the samples of
  both queries.
\<close>

lemma bilinear_interp_grid_pair:
  "bilinear_interp (Grid2 grid23) [2, 0] [1, 0] = Inr (A2 [[60, 10], [60, 10]])"
  by (simp add: bilinear_interp_def index_pairs_def corner_samples_def pixel_def np_index_def
      grid23_def interp_row_def Let_def)

text \<open>
  C7: the code departs from the claim on the claim's own call. At the vertex \<open>(2, 1)\<close> of
  the \<open>2 \<times> 3\<close> grid, with or without a channel axis, \<^verbatim>\<open>bilinear_interp(img, [2], [1])\<close>
  raises \<open>ValueError\<close> instead of returning \<open>img[1, 2] = 60\<close>: the one-element coordinate
  array is squeezed to zero dimensions. With the two vertex queries \<open>(2, 1)\<close> and \<open>(0, 0)\<close>
  on the image with a channel axis the result is \<open>[img[1, 2], img[0, 0]] = [60, 10]\<close>, with
  no blending, as the claim says of one query.
\<close>

theorem bilinear_interp_single_vertex:
  "bilinear_interp (Grid2 grid23) [2] [1] = Inl ValueError \<and>
   bilinear_interp (Grid3 img23) [2] [1] = Inl ValueError \<and>
   bilinear_interp (Grid3 img23) [2, 0] [1, 0] = Inr (A1 [60, 10])"
proof -
  have h: "list_all2 (at_vertex img23) [2, 0] [1, 0]"
    by (simp add: at_vertex_def img23_def)
  have "bilinear_interp (Grid3 img23) [2, 0] [1, 0] = Inr (A1 [60, 10])"
    using bilinear_interp_vertex_batch[OF h] by (simp add: img23_def squeeze_rows_def channels_def)
  then show ?thesis by (simp add: bilinear_interp_def)
qed

lemma corner_samples_left_edge:
  assumes g: "grid_shape h c img" and c: "1 \<le> c" and q: "near_left_edge h x y"
  shows "corner_samples img x y =
           Inr (img ! nat \<lfloor>y\<rfloor> ! (c - 1), img ! nat \<lfloor>y\<rfloor> ! (c - 1),
                img ! nat \<lfloor>y\<rfloor> ! 0, img ! nat \<lfloor>y\<rfloor> ! 0)"
proof -
  have fx: "\<lfloor>x\<rfloor> = - 1" using q by (simp add: near_left_edge_def floor_eq_iff)
  have cx: "\<lceil>x\<rceil> = 0" using q by (simp add: near_left_edge_def ceiling_eq_iff)
  have cy: "\<lceil>y\<rceil> = \<lfloor>y\<rfloor>" using q by (auto simp: near_left_edge_def intro: ceiling_of_floor_eq)
  have yb: "0 \<le> \<lfloor>y\<rfloor>" "\<lfloor>y\<rfloor> < int (length img)"
    using q g by (simp_all add: near_left_edge_def grid_shape_def)
  then have "nat \<lfloor>y\<rfloor> < length img" by linarith
  then have "img ! nat \<lfloor>y\<rfloor> \<in> set img" by (rule nth_mem)
  then have row: "length (img ! nat \<lfloor>y\<rfloor>) = c"
    using g by (simp add: grid_shape_def list_all_iff)
  then have ne: "img ! nat \<lfloor>y\<rfloor> \<noteq> []" using c by auto
  have p1: "pixel img \<lfloor>y\<rfloor> (- 1) = Inr (img ! nat \<lfloor>y\<rfloor> ! (c - 1))"
    using yb np_index_minus_one[OF ne] row by (simp add: pixel_def np_index_nonneg)
  have p2: "pixel img \<lfloor>y\<rfloor> 0 = Inr (img ! nat \<lfloor>y\<rfloor> ! 0)"
    using yb row c by (simp add: pixel_def np_index_nonneg)
  show ?thesis
    by (simp add: corner_samples_def fx cx cy p1 p2 Let_def)
qed

lemma interp_row_left_edge:
  assumes q: "near_left_edge h x y"
  shows "interp_row x y q11 q12 q21 q22 m11 m22 =
           blend q11 (- x / (1 + EPS)) q21 ((x + 1) / (1 + EPS))"
proof -
  have fx: "\<lfloor>x\<rfloor> = - 1" using q by (simp add: near_left_edge_def floor_eq_iff)
  have cx: "\<lceil>x\<rceil> = 0" using q by (simp add: near_left_edge_def ceiling_eq_iff)
  have cy: "\<lceil>y\<rceil> = \<lfloor>y\<rfloor>" using q by (auto simp: near_left_edge_def intro: ceiling_of_floor_eq)
  show ?thesis by (simp add: interp_row_def fx cx cy Let_def)
qed

text \<open>
  Two or more queries with \<open>-1 < x < 0\<close> at integer rows of an image with \<open>c \<ge> 1\<close> columns and a
  channel axis: \<open>floor(x) = -1\<close> wraps to the last column and \<open>ceil(x) = 0\<close> is the first, no
  index is out of bounds, and \<open>y1 = y2\<close> makes the result the interpolation along \<open>x\<close> of
  \<open>img[y, c-1]\<close> and \<open>img[y, 0]\<close>.
\<close>

lemma bilinear_interp_left_edge_batch:
  assumes g: "grid_shape h c img" and c: "1 \<le> c"
    and v: "list_all2 (near_left_edge h) X Y" and n: "length X \<noteq> 1"
  shows "bilinear_interp (Grid3 img) X Y =
           Inr (squeeze_rows (channels img)
             (map2 (\<lambda>x y. blend (img ! nat \<lfloor>y\<rfloor> ! (c - 1)) (- x / (1 + EPS))
                                (img ! nat \<lfloor>y\<rfloor> ! 0) ((x + 1) / (1 + EPS))) X Y))"
proof -
  let ?l = "\<lambda>(x, y). img ! nat \<lfloor>y\<rfloor> ! (c - 1)"
  let ?r = "\<lambda>(x, y). img ! nat \<lfloor>y\<rfloor> ! 0"
  have len: "length X = length Y"
    using v by (rule list_all2_lengthD)
  then have ny: "length Y \<noteq> 1" using n by simp
  have P: "index_pairs X Y = Inr (zip X Y)"
    using len ny by (simp add: index_pairs_def)
  have av: "\<And>a. a \<in> set (zip X Y) \<Longrightarrow> near_left_edge h (fst a) (snd a)"
    using v by (auto simp: list_all2_iff)
  have "\<And>a. a \<in> set (zip X Y) \<Longrightarrow>
          (\<lambda>(x, y). corner_samples img x y) a = Inr ((\<lambda>a. (?l a, ?l a, ?r a, ?r a)) a)"
    using av by (auto simp: corner_samples_left_edge[OF g c])
  then have Q: "collect (\<lambda>(x, y). corner_samples img x y) (zip X Y)
               = Inr (map (\<lambda>a. (?l a, ?l a, ?r a, ?r a)) (zip X Y))"
    by (rule collect_map)
  have rows: "map2 (\<lambda>(x, y) (q11, q12, q21, q22). interp_row x y q11 q12 q21 q22 q11 q22)
          (zip X Y) (map (\<lambda>a. (?l a, ?l a, ?r a, ?r a)) (zip X Y))
        = map (\<lambda>(x, y). blend (img ! nat \<lfloor>y\<rfloor> ! (c - 1)) (- x / (1 + EPS))
                                (img ! nat \<lfloor>y\<rfloor> ! 0) ((x + 1) / (1 + EPS))) (zip X Y)"
    unfolding map2_map_same using av
    by (intro map_cong) (auto simp: interp_row_left_edge[of h])
  have "bilinear_interp (Grid3 img) X Y =
          Inr (squeeze_rows (channels img)
            (map2 (\<lambda>(x, y) (q11, q12, q21, q22). interp_row x y q11 q12 q21 q22 q11 q22)
               (zip X Y) (map (\<lambda>a. (?l a, ?l a, ?r a, ?r a)) (zip X Y))))"
    using n ny by (simp add: bilinear_interp_def P Q)
  then show ?thesis
    unfolding rows by simp
qed

text \<open>
  C10: the code departs from the claim on the claim's own call, by the defect of C7. At
  \<open>x = -1/2\<close> in row 1 of the \<open>2 \<times> 3\<close> grid, with or without a channel axis,
  \<^verbatim>\<open>bilinear_interp(img, [-0.5], [1])\<close> raises \<open>ValueError\<close>: it does not succeed, though the
  error is not an out-of-bounds one. With the two queries \<open>(-1/2, 1)\<close> and \<open>(-1/4, 0)\<close> on the
  image with a channel axis the result blends the two opposite edges,
  \<open>(60 \<cdot> 1/2 + 40 \<cdot> 1/2) / (1 + EPS)\<close> and \<open>(30 \<cdot> 1/4 + 10 \<cdot> 3/4) / (1 + EPS)\<close>, as the claim
  says of one query.
\<close>

theorem bilinear_interp_single_left_edge:
  "bilinear_interp (Grid2 grid23) [- 1 / 2] [1] = Inl ValueError \<and>
   bilinear_interp (Grid3 img23) [- 1 / 2] [1] = Inl ValueError \<and>
   bilinear_interp (Grid3 img23) [- 1 / 2, - 1 / 4] [1, 0]
     = Inr (A1 [50 / (1 + EPS), 15 / (1 + EPS)])"
proof -
  have h1: "grid_shape 2 3 img23" by (simp add: grid_shape_def img23_def)
  have h2: "(1::nat) \<le> 3" by simp
  have h3: "list_all2 (near_left_edge 2) [- 1 / 2, - 1 / 4] [1, 0]"
    by (simp add: near_left_edge_def)
  have a: "100 / (2 + 2 * EPS) = 50 / (1 + EPS)" "60 / (4 + 4 * EPS) = 15 / (1 + EPS)"
    by (simp_all add: EPS_def)
  have "bilinear_interp (Grid3 img23) [- 1 / 2, - 1 / 4] [1, 0]
     = Inr (A1 [50 / (1 + EPS), 15 / (1 + EPS)])"
    using bilinear_interp_left_edge_batch[OF h1 h2 h3]
    by (simp add: img23_def blend_def squeeze_rows_def channels_def a)
  then show ?thesis by (simp add: bilinear_interp_def)
qed

section \<open>Properties of the rotation algebra\<close>

lemma upt3: "[0..<3] = [0, 1, 2]"
  by (simp add: upt_rec)

lemma zyx_product:
  "mat_mul (mat_mul (rot_z y) (rot_y p)) (rot_x r) =
     [[cos y * cos p, cos y * sin p * sin r - sin y * cos r, cos y * sin p * cos r + sin y * sin r],
      [sin y * cos p, sin y * sin p * sin r + cos y * cos r, sin y * sin p * cos r - cos y * sin r],
      [- sin p, cos p * sin r, cos p * cos r]]"
  by (simp add: mat_mul_def rot_x_def rot_y_def rot_z_def ncols_def col_def dot_def upt3 algebra_simps)

lemma mat_T_3x3:
  "mat_T [[a, b, c], [d, e, f], [g, h, i]] = [[a, d, g], [b, e, h], [c, f, i]]"
  by (simp add: mat_T_def ncols_def col_def upt3)

lemma cos_pos_interval:
  assumes "- pi < t" "t < pi" "0 < cos t"
  shows "- (pi / 2) < t \<and> t < pi / 2"
proof -
  have "\<not> (pi / 2 \<le> t)"
  proof
    assume "pi / 2 \<le> t"
    then have "cos t \<le> cos (pi / 2)"
      using assms(2) by (intro cos_monotone_0_pi_le) auto
    then show False using assms(3) by simp
  qed
  moreover have "\<not> (t \<le> - (pi / 2))"
  proof
    assume "t \<le> - (pi / 2)"
    then have "cos (- t) \<le> cos (pi / 2)"
      using assms(1) by (intro cos_monotone_0_pi_le) auto
    then show False using assms(3) by simp
  qed
  ultimately show ?thesis by simp
qed

lemma arctan2_polar:
  assumes r: "0 < r" and t: "- pi < t" "t < pi"
  shows "arctan2 (r * sin t) (r * cos t) = t"
proof -
  have q: "r * sin t / (r * cos t) = tan t"
    using r by (simp add: tan_def)
  consider (pos) "0 < cos t" | (neg) "cos t < 0" | (zero) "cos t = 0" by linarith
  then show ?thesis
  proof cases
    case pos
    then have "- (pi / 2) < t \<and> t < pi / 2" using cos_pos_interval t by blast
    then have "arctan (tan t) = t" by (simp add: arctan_tan)
    moreover have "0 < r * cos t" using r pos by simp
    ultimately show ?thesis unfolding arctan2_def q by simp
  next
    case neg
    have x: "r * cos t < 0" using r neg by (simp add: mult_pos_neg)
    show ?thesis
    proof (cases "0 \<le> sin t")
      case True
      have "0 \<le> t"
      proof (rule ccontr)
        assume "\<not> 0 \<le> t"
        then have "0 < sin (- t)" using t by (intro sin_gt_zero) auto
        then show False using True by simp
      qed
      have "0 < cos (t - pi)" using neg by (simp add: cos_diff)
      moreover have "t \<noteq> 0" using neg by auto
      then have "- pi < t - pi" "t - pi < pi" using \<open>0 \<le> t\<close> t by auto
      ultimately have "- (pi / 2) < t - pi \<and> t - pi < pi / 2"
        using cos_pos_interval by blast
      then have "arctan (tan (t - pi)) = t - pi" by (intro arctan_tan) simp_all
      moreover have "tan (t - pi) = tan t"
        using tan_periodic_pi[of "t - pi"] by simp
      moreover have "0 \<le> r * sin t" using r True by simp
      ultimately show ?thesis unfolding arctan2_def q using x by simp
    next
      case False
      then have s: "sin t < 0" by simp
      have "t < 0"
      proof (rule ccontr)
        assume "\<not> t < 0"
        then have "0 \<le> sin t" using t by (intro sin_ge_zero) auto
        then show False using s by simp
      qed
      have "0 < cos (t + pi)" using neg by (simp add: cos_add)
      moreover have "- pi < t + pi" "t + pi < pi" using \<open>t < 0\<close> t by auto
      ultimately have "- (pi / 2) < t + pi \<and> t + pi < pi / 2"
        using cos_pos_interval by blast
      then have "arctan (tan (t + pi)) = t + pi" by (intro arctan_tan) simp_all
      moreover have "tan (t + pi) = tan t" by (rule tan_periodic_pi)
      moreover have "\<not> 0 \<le> r * sin t" using r s by (simp add: mult_pos_neg not_le)
      ultimately show ?thesis unfolding arctan2_def q using x by simp
    qed
  next
    case zero
    have sq: "(sin t)\<^sup>2 = 1" using sin_cos_squared_add[of t] zero by simp
    show ?thesis
    proof (cases "0 < sin t")
      case True
      have "0 \<le> t"
      proof (rule ccontr)
        assume "\<not> 0 \<le> t"
        then have "0 < sin (- t)" using t by (intro sin_gt_zero) auto
        then show False using True by simp
      qed
      have "t = pi / 2"
      proof (rule cos_inj_pi)
        show "0 \<le> t" by fact
        show "t \<le> pi" using t by simp
        show "0 \<le> pi / 2" by simp
        show "pi / 2 \<le> pi" by simp
        show "cos t = cos (pi / 2)" using zero by simp
      qed
      moreover have "0 < r * sin t" using r True by simp
      ultimately show ?thesis using zero by (simp add: arctan2_def)
    next
      case False
      moreover have "sin t \<noteq> 0" using sq by auto
      ultimately have s: "sin t < 0" by simp
      have "t < 0"
      proof (rule ccontr)
        assume "\<not> t < 0"
        then have "0 \<le> sin t" using t by (intro sin_ge_zero) auto
        then show False using s by simp
      qed
      have "- t = pi / 2"
      proof (rule cos_inj_pi)
        show "0 \<le> - t" using \<open>t < 0\<close> by simp
        show "- t \<le> pi" using t by simp
        show "0 \<le> pi / 2" by simp
        show "pi / 2 \<le> pi" by simp
        show "cos (- t) = cos (pi / 2)" using zero by simp
      qed
      then have "t = - (pi / 2)" by simp
      moreover have "r * sin t < 0" using r s by (simp add: mult_pos_neg)
      ultimately show ?thesis using zero by (simp add: arctan2_def)
    qed
  qed
qed

lemma arctan2_polar': "0 < r \<Longrightarrow> - pi < t \<Longrightarrow> t < pi \<Longrightarrow> arctan2 (sin t * r) (cos t * r) = t"
  using arctan2_polar[of r t] by (simp add: mult.commute)

lemma arctan2_sin_cos: "- pi < t \<Longrightarrow> t < pi \<Longrightarrow> arctan2 (sin t) (cos t) = t"
  using arctan2_polar[of 1 t] by simp

lemma c_y_transposed: "sqrt ((c * cos r)\<^sup>2 + (c * sin r)\<^sup>2) = \<bar>c\<bar>"
proof -
  have "(c * cos r)\<^sup>2 + (c * sin r)\<^sup>2 = c\<^sup>2 * ((cos r)\<^sup>2 + (sin r)\<^sup>2)"
    by (simp only: power_mult_distrib distrib_left)
  also have "\<dots> = c\<^sup>2" by (simp only: sin_cos_squared_add2 mult_1_right)
  finally show ?thesis by simp
qed

text \<open>
  C5, as stated, fails: \<^verbatim>\<open>rot_to_yaw_pitch_roll\<close> reads \<open>C[1, 2]\<close>, \<open>C[0, 2]\<close> and \<open>C[0, 1]\<close>, the
  entries above the diagonal, where \<open>rot_z(yaw) \<cdot> rot_y(pitch) \<cdot> rot_x(roll)\<close> carries the angles
  below it. For yaw \<open>\<pi>/2\<close> and pitch and roll 0 it returns the yaw \<open>-\<pi>/2\<close>.
\<close>

theorem rot_to_yaw_pitch_roll_roundtrip_counterexample:
  "rot_to_yaw_pitch_roll (mat_mul (mat_mul (rot_z (pi / 2)) (rot_y 0)) (rot_x 0)) eps_default
     = Inr (- (pi / 2), 0, 0) \<and>
   rot_to_yaw_pitch_roll (mat_mul (mat_mul (rot_z (pi / 2)) (rot_y 0)) (rot_x 0)) eps_default
     \<noteq> Inr (pi / 2, 0, 0)"
  by (simp add: zyx_product rot_to_yaw_pitch_roll_def entry_def arctan2_def eps_default_def)

text \<open>
  C5, amended. For every yaw and roll in \<open>(-\<pi>, \<pi>)\<close> and every pitch in \<open>(-\<pi>/2, \<pi>/2)\<close> with
  \<open>cos(pitch)\<close> above the threshold \<open>eps\<close>, \<^verbatim>\<open>rot_to_yaw_pitch_roll\<close> applied to the transpose
  of \<open>rot_z(yaw) \<cdot> rot_y(pitch) \<cdot> rot_x(roll)\<close> returns exactly \<open>(yaw, pitch, roll)\<close> (over the
  reals).
\<close>

theorem rot_to_yaw_pitch_roll_roundtrip:
  assumes "- pi < yaw" "yaw < pi" "- pi < roll" "roll < pi"
    and "- (pi / 2) < pitch" "pitch < pi / 2" and "eps < cos pitch"
  shows "rot_to_yaw_pitch_roll
           (mat_T (mat_mul (mat_mul (rot_z yaw) (rot_y pitch)) (rot_x roll))) eps
         = Inr (yaw, pitch, roll)"
proof -
  have cp: "0 < cos pitch" using assms(5,6) by (simp add: cos_gt_zero_pi)
  have p: "- pi < pitch" "pitch < pi" using assms(5,6) pi_gt_zero by linarith+
  have cy: "sqrt ((cos pitch * cos roll)\<^sup>2 + (cos pitch * sin roll)\<^sup>2) = cos pitch"
    using cp by (simp add: c_y_transposed)
  have r: "arctan2 (cos pitch * sin roll) (cos pitch * cos roll) = roll"
    using cp assms(3,4) by (rule arctan2_polar)
  have y: "arctan2 (sin yaw * cos pitch) (cos yaw * cos pitch) = yaw"
    using cp assms(1,2) by (rule arctan2_polar')
  have pt: "arctan2 (sin pitch) (cos pitch) = pitch"
    using p by (rule arctan2_sin_cos)
  show ?thesis
    using assms(7)
    by (simp add: zyx_product mat_T_3x3 rot_to_yaw_pitch_roll_def entry_def cy r y pt)
qed

theorem rot_to_yaw_pitch_roll_roundtrip_witness:
  "- pi < pi / 2 \<and> pi / 2 < pi \<and> - pi < (0::real) \<and> (0::real) < pi \<and> - (pi / 2) < 0 \<and> (0::real) < pi / 2 \<and>
   eps_default < cos 0 \<and>
   rot_to_yaw_pitch_roll (mat_T (mat_mul (mat_mul (rot_z (pi / 2)) (rot_y 0)) (rot_x 0))) eps_default
     = Inr (pi / 2, 0, 0)"
proof -
  have e: "eps_default < cos 0" by (simp add: eps_default_def)
  have "rot_to_yaw_pitch_roll (mat_T (mat_mul (mat_mul (rot_z (pi / 2)) (rot_y 0)) (rot_x 0))) eps_default
     = Inr (pi / 2, 0, 0)"
    by (rule rot_to_yaw_pitch_roll_roundtrip) (use e in simp_all)
  then show ?thesis using e by simp
qed

text \<open>
  C6, as stated, fails: for \<open>C = rot_z(yaw) \<cdot> rot_y(\<pi>/2) \<cdot> rot_x(roll)\<close> the entries \<open>C[2, 2]\<close> and
  \<open>C[1, 2]\<close> are 0 and \<open>sin(yaw - roll)\<close>, so \<open>c_y = |sin(yaw - roll)|\<close>. For yaw \<open>\<pi>/2\<close> and roll 0,
  \<open>c_y = 1 > eps\<close>: the non-degenerate branch runs and the roll returned is \<open>\<pi>/2\<close>.
\<close>

theorem rot_to_yaw_pitch_roll_gimbal_counterexample:
  "rot_to_yaw_pitch_roll (mat_mul (mat_mul (rot_z (pi / 2)) (rot_y (pi / 2))) (rot_x 0)) eps_default
     = Inr (- (pi / 2), 0, pi / 2) \<and>
   eps_default < sqrt ((entry (mat_mul (mat_mul (rot_z (pi / 2)) (rot_y (pi / 2))) (rot_x 0)) 2 2)\<^sup>2
      + (entry (mat_mul (mat_mul (rot_z (pi / 2)) (rot_y (pi / 2))) (rot_x 0)) 1 2)\<^sup>2)"
  by (simp add: zyx_product rot_to_yaw_pitch_roll_def entry_def arctan2_def eps_default_def)

text \<open>
  C6, amended. For the transpose of \<open>rot_z(yaw) \<cdot> rot_y(\<pi>/2) \<cdot> rot_x(roll)\<close> and the default
  \<open>eps = 1e-15\<close>, \<open>c_y = sqrt(C[2,2]\<^sup>2 + C[1,2]\<^sup>2)\<close> is not greater than \<open>eps\<close>, so
  \<^verbatim>\<open>rot_to_yaw_pitch_roll\<close> takes the degenerate branch: the roll returned is exactly 0, the
  pitch is \<open>\<pi>/2\<close>, and the yaw is the angle of \<open>yaw - roll\<close>.
\<close>

theorem rot_to_yaw_pitch_roll_gimbal:
  "\<not> eps_default < sqrt ((entry (mat_T (mat_mul (mat_mul (rot_z yaw) (rot_y (pi / 2))) (rot_x roll))) 2 2)\<^sup>2
               + (entry (mat_T (mat_mul (mat_mul (rot_z yaw) (rot_y (pi / 2))) (rot_x roll))) 1 2)\<^sup>2) \<and>
   rot_to_yaw_pitch_roll
     (mat_T (mat_mul (mat_mul (rot_z yaw) (rot_y (pi / 2))) (rot_x roll))) eps_default
   = Inr (arctan2 (sin yaw * cos roll - cos yaw * sin roll)
                  (sin yaw * sin roll + cos yaw * cos roll), pi / 2, 0)"
  by (simp add: zyx_product mat_T_3x3 rot_to_yaw_pitch_roll_def entry_def arctan2_def eps_default_def)

theorem rot_to_yaw_pitch_roll_gimbal_witness:
  "rot_to_yaw_pitch_roll (mat_T (mat_mul (mat_mul (rot_z (pi / 2)) (rot_y (pi / 2))) (rot_x 0))) eps_default
     = Inr (pi / 2, pi / 2, 0)"
  using rot_to_yaw_pitch_roll_gimbal[of "pi / 2" 0]
  by (simp add: arctan2_def)

section \<open>Properties of the pose resolver\<close>

lemma upt4: "[0..<4] = [0, 1, 2, 3]"
  by (simp add: upt_rec)

lemma reorder4: "reorder_heading [q0, q1, q2, q3] = Inr [q1, q2, q3, - q0]"
  by (simp add: reorder_heading_def negate_at_def)

lemma sumsq4_nonneg: "0 \<le> x * x + (y * y + (z * z + w * w))" for x y z w :: real
  by (simp add: add_nonneg_nonneg)

lemma quat_to_matrix_closed:
  fixes x y z w :: real
  defines "s \<equiv> x * x + (y * y + (z * z + w * w))"
  assumes "s \<noteq> 0"
  shows "quat_to_matrix [x, y, z, w] =
     Inr [[(x * x - y * y - z * z + w * w) / s, 2 * (x * y - z * w) / s, 2 * (x * z + y * w) / s],
       [2 * (x * y + z * w) / s, (- (x * x) + y * y - z * z + w * w) / s, 2 * (y * z - x * w) / s],
       [2 * (x * z - y * w) / s, 2 * (y * z + x * w) / s, (- (x * x) - y * y + z * z + w * w) / s]]"
proof -
  have s0: "0 \<le> s" unfolding s_def by (rule sumsq4_nonneg)
  define n where "n = sqrt s"
  have nn: "n * n = s" using s0 by (simp add: n_def)
  have n0: "n \<noteq> 0" using assms(2) s0 by (simp add: n_def)
  have pr: "\<And>a b. (a / n) * (b / n) = a * b / s"
    using nn by simp
  have fq: "from_quat [x, y, z, w] = Inr [x / n, y / n, z / n, w / n]"
    using n0 by (simp add: from_quat_def n_def s_def Let_def)
  show ?thesis
    by (simp add: quat_to_matrix_def fq as_matrix_def nn diff_divide_distrib add_divide_distrib)
qed

lemma det2: "det [[a, b], [c, d]] = a * d - b * c"
  by (simp add: del_nth_def upt_rec)

lemma det3: "det [[a, b, c], [d, e, f], [g, h, i]]
   = a * (e * i - f * h) - b * (d * i - f * g) + c * (d * h - e * g)"
  apply (subst det.simps(2))
  apply (simp add: del_nth_def upt3 det2 del: det.simps)
  done

lemma det4: "det [[a0, a1, a2, a3], [b0, b1, b2, b3], [c0, c1, c2, c3], [d0, d1, d2, d3]]
   = a0 * det [[b1, b2, b3], [c1, c2, c3], [d1, d2, d3]]
   - a1 * det [[b0, b2, b3], [c0, c2, c3], [d0, d2, d3]]
   + a2 * det [[b0, b1, b3], [c0, c1, c3], [d0, d1, d3]]
   - a3 * det [[b0, b1, b2], [c0, c1, c2], [d0, d1, d2]]"
  apply (subst det.simps(2))
  apply (simp add: del_nth_def upt4 del: det.simps)
  done

lemma inv_scale4: "linalg_inv scale4 = Inr [[1/2,0,0,0],[0,1/2,0,0],[0,0,1/2,0],[0,0,0,1]]"
  unfolding scale4_def linalg_inv_def Let_def
  by (simp add: det4 det3 upt4 cofactor_def del_nth_def del: det.simps)

lemma quat_to_matrix_zero:
  fixes x y z w :: real
  assumes "x * x + (y * y + (z * z + w * w)) = 0"
  shows "quat_to_matrix [x, y, z, w] = Inl ValueError"
  using assms by (simp add: quat_to_matrix_def from_quat_def)

lemma quat_to_matrix_neg:
  "quat_to_matrix [- x, - y, - z, - w] = quat_to_matrix [x, y, z, w]"
proof (cases "x * x + (y * y + (z * z + w * w)) = 0")
  case True
  then show ?thesis by (simp add: quat_to_matrix_zero)
next
  case False
  then show ?thesis
    using quat_to_matrix_closed[of x y z w] quat_to_matrix_closed[of "- x" "- y" "- z" "- w"]
    by simp
qed

text \<open>
  C3, as stated, fails on the components: the code negates the rotated array as a whole
  before it flips the sign of the first three entries, so the vector part keeps its sign and
  the scalar part is the one negated. For \<open>(1, 2, 3, 4)\<close> the code converts \<open>(2, 3, 4, -1)\<close>;
  a cyclic rotation with a sign flip on the vector part is \<open>(-2, -3, -4, 1)\<close>.
\<close>

theorem reorder_heading_counterexample:
  "reorder_heading [1, 2, 3, 4] = Inr [2, 3, 4, - 1] \<and>
   reorder_heading [1, 2, 3, 4] \<noteq> Inr (spec_preprocess [1, 2, 3, 4])"
  by (simp add: reorder4 spec_preprocess_def)

text \<open>
  C3, amended. For every raw heading quaternion \<open>(q0, q1, q2, q3)\<close> the preprocessing before
  the conversion is a cyclic rotation of the components by one place combined with a sign
  flip on the scalar part: the array converted is \<open>(q1, q2, q3, -q0)\<close>. It is the negative of
  the cyclic rotation with the vector part flipped, and both convert to the same rotation
  matrix (or both raise).
\<close>

theorem reorder_heading_scalar_flip:
  "reorder_heading [q0, q1, q2, q3] = Inr [q1, q2, q3, - q0] \<and>
   [q1, q2, q3, - q0] = map uminus (spec_preprocess [q0, q1, q2, q3]) \<and>
   quat_to_matrix [q1, q2, q3, - q0] = quat_to_matrix (spec_preprocess [q0, q1, q2, q3])"
  using quat_to_matrix_neg[of q1 q2 q3 "- q0"]
  by (simp add: reorder4 spec_preprocess_def)

lemma extrinsic_default:
  "extrinsic None =
     Inr ([[0, 1, 0, 0], [- 1, 0, 0, 0], [0, 0, 1, - (9 / 20)], [0, 0, 0, 1]],
          [[0, 1, 0], [- 1, 0, 0], [0, 0, 1]])"
  by (simp add: extrinsic_def mat_T_def ncols_def col_def upt3 mat_vec_def dot_def to_T_def)

lemma ncols_4: "has_shape 4 c M \<Longrightarrow> ncols M = c"
  by (cases M) (auto simp: has_shape_def ncols_def)

lemma extrinsic_block_cols:
  assumes "extrinsic T_iv = Inr (T_vi, C_vi)" and "has_shape 4 4 T_vi"
  shows "ncols C_vi = 3"
proof (cases T_iv)
  case None
  then show ?thesis using assms(1) by (auto simp: extrinsic_default ncols_def)
next
  case (Some M)
  then have C: "C_vi = map (take 3) (take 3 T_vi)"
    using assms(1) by (auto simp: extrinsic_def split: sum.splits)
  obtain r0 r1 r2 r3 where T: "T_vi = [r0, r1, r2, r3]" and "length r0 = 4"
    using assms(2) by (auto simp: has_shape_def length_Suc_conv numeral_eq_Suc)
  then show ?thesis by (simp add: C ncols_def)
qed

lemma yaw_norm_pos:
  fixes q0 q3 :: real
  assumes "q0 * q0 + q3 * q3 \<noteq> 0"
  shows "q1 * q1 + (q2 * q2 + (q3 * q3 + q0 * q0)) \<noteq> 0"
proof -
  have "0 \<le> q0 * q0 + q3 * q3" by simp
  then have "0 < q0 * q0 + q3 * q3" using assms by linarith
  moreover have "0 \<le> q1 * q1" "0 \<le> q2 * q2" by simp_all
  ultimately show ?thesis by linarith
qed

lemma velodyne_ex1:
  "velodyne_frame_from_imu [1, 0, 0, 1] [0, 0, 0] None
     = Inr ([[- 1, 0, 0, 0], [0, - 1, 0, 0], [0, 0, 1, - (9 / 20)], [0, 0, 0, 1]],
            [[- 1, 0, 0], [0, - 1, 0], [0, 0, 1]])"
  by (simp add: velodyne_frame_from_imu_def reorder4 quat_to_matrix_closed extrinsic_default
      matmul_def mat_mul_def to_T_def ncols_def col_def dot_def mat_vec_def set_at_def upt3 upt4)

text \<open>
  C2, as stated, fails: \<open>raw_heading_yaw\<close> is the reordered array, not the original input.
  For the heading \<open>(1, 0, 0, 1)\<close> and the default extrinsic the code zeroes \<open>(0, 0, 1, -1)\<close> and
  returns the half turn \<open>diag(-1, -1, 1)\<close>; zeroing the original quaternion gives
  \<open>(0, 0, 0, 1)\<close>, the identity, and the product would be \<open>C_vi\<close> itself.
\<close>

theorem velodyne_yaw_counterexample:
  "velodyne_frame_from_imu [1, 0, 0, 1] [0, 0, 0] None
     = Inr ([[- 1, 0, 0, 0], [0, - 1, 0, 0], [0, 0, 1, - (9 / 20)], [0, 0, 0, 1]],
            [[- 1, 0, 0], [0, - 1, 0], [0, 0, 1]]) \<and>
   spec_C_yaw [1, 0, 0, 1] None = Inr [[0, 1, 0], [- 1, 0, 0], [0, 0, 1]]"
  by (simp add: velodyne_ex1 spec_C_yaw_def extrinsic_default quat_to_matrix_closed
      matmul_def mat_mul_def ncols_def col_def dot_def upt3)

text \<open>
  C2, amended. For every raw heading quaternion \<open>(q0, q1, q2, q3)\<close> with \<open>q0\<close> and \<open>q3\<close> not both
  zero, every position of three entries and every extrinsic that resolves to a \<open>4 \<times> 4\<close>
  transform \<open>T_vi\<close> with rotation block \<open>C_vi\<close>, \<^verbatim>\<open>velodyne_frame_from_imu\<close> returns, and its
  yaw-only rotation is obtained by zeroing the entries 0 and 1 of the reordered quaternion
  \<open>(q1, q2, q3, -q0)\<close>, that is from \<open>(0, 0, q3, -q0)\<close>, converting that to a rotation matrix
  and premultiplying by \<open>C_vi\<close> only; no translation is involved.
\<close>

theorem velodyne_yaw_from_reordered:
  assumes r: "length r_io = 3" and n: "q0 * q0 + q3 * q3 \<noteq> 0"
    and e: "extrinsic T_iv = Inr (T_vi, C_vi)" and s: "has_shape 4 4 T_vi"
  shows "\<exists>T_vo C_io_yaw.
           quat_to_matrix [0, 0, q3, - q0] = Inr C_io_yaw \<and>
           velodyne_frame_from_imu [q0, q1, q2, q3] r_io T_iv = Inr (T_vo, mat_mul C_vi C_io_yaw)"
proof -
  have n4: "q1 * q1 + (q2 * q2 + (q3 * q3 + - q0 * - q0)) \<noteq> 0"
    using yaw_norm_pos[OF n, of q1 q2] by simp
  have ny: "0 * 0 + (0 * 0 + (q3 * q3 + - q0 * - q0)) \<noteq> (0::real)"
    using n by (simp add: add.commute)
  obtain C_io where cio: "quat_to_matrix [q1, q2, q3, - q0] = Inr C_io" and l: "length C_io = 3"
    using quat_to_matrix_closed[OF n4] by simp
  obtain C_io_yaw where cy: "quat_to_matrix [0, 0, q3, - q0] = Inr C_io_yaw" and ly: "length C_io_yaw = 3"
    using quat_to_matrix_closed[OF ny] by simp
  have lt: "length (to_T C_io (map uminus (mat_vec C_io r_io))) = 4"
    using l by (simp add: to_T_def mat_vec_def)
  have c4: "ncols T_vi = 4" using s by (rule ncols_4)
  have c3: "ncols C_vi = 3" using e s by (rule extrinsic_block_cols)
  have "velodyne_frame_from_imu [q0, q1, q2, q3] r_io T_iv =
          Inr (mat_mul T_vi (to_T C_io (map uminus (mat_vec C_io r_io))), mat_mul C_vi C_io_yaw)"
    using r by (simp add: velodyne_frame_from_imu_def reorder4 cio e matmul_def lt c4 c3 set_at_def cy ly Let_def)
  with cy show ?thesis by blast
qed

theorem velodyne_yaw_from_reordered_witness:
  "length [0, 0, 0 :: real] = 3 \<and> (1::real) * 1 + 1 * 1 \<noteq> 0 \<and>
   extrinsic None = Inr ([[0, 1, 0, 0], [- 1, 0, 0, 0], [0, 0, 1, - (9 / 20)], [0, 0, 0, 1]],
                         [[0, 1, 0], [- 1, 0, 0], [0, 0, 1]]) \<and>
   has_shape 4 4 [[0, 1, 0, 0], [- 1, 0, 0, 0], [0, 0, 1, - (9 / 20)], [0, 0, 0, 1]] \<and>
   (\<exists>T_vo C_io_yaw.
       quat_to_matrix [0, 0, 1, - 1] = Inr C_io_yaw \<and>
       velodyne_frame_from_imu [1, 0, 0, 1] [0, 0, 0] None
         = Inr (T_vo, mat_mul [[0, 1, 0], [- 1, 0, 0], [0, 0, 1]] C_io_yaw))"
proof -
  have h1: "length [0, 0, 0 :: real] = 3" by simp
  have h2: "(1::real) * 1 + 1 * 1 \<noteq> 0" by simp
  have h4: "has_shape 4 4 [[0, 1, 0, 0], [- 1, 0, 0, 0], [0, 0, 1, - (9 / 20)], [0, 0, 0, 1]]"
    by (simp add: has_shape_def)
  from velodyne_yaw_from_reordered[OF h1 h2 extrinsic_default h4, of 0 0]
  show ?thesis using h1 h2 h4 extrinsic_default by simp
qed

lemma orthonormal_3x3:
  "orthonormal [[a, b, c], [d, e, f], [g, h, i]] \<longleftrightarrow>
     a * a + b * b + c * c = 1 \<and> d * d + e * e + f * f = 1 \<and> g * g + h * h + i * i = 1 \<and>
     a * d + b * e + c * f = 0 \<and> a * g + b * h + c * i = 0 \<and> d * g + e * h + f * i = 0"
  by (auto simp: orthonormal_def mat_mul_def mat_T_def ncols_def col_def dot_def upt3 eye3_def
      mult.commute)

lemma quat_rows:
  fixes x y z w :: real
  defines "s \<equiv> x * x + y * y + z * z + w * w"
  defines "a \<equiv> x * x - y * y - z * z + w * w" and "b \<equiv> 2 * (x * y - z * w)"
    and "c \<equiv> 2 * (x * z + y * w)" and "d \<equiv> 2 * (x * y + z * w)"
    and "e \<equiv> - (x * x) + y * y - z * z + w * w" and "f \<equiv> 2 * (y * z - x * w)"
    and "g \<equiv> 2 * (x * z - y * w)" and "h \<equiv> 2 * (y * z + x * w)"
    and "i \<equiv> - (x * x) - y * y + z * z + w * w"
  shows "a * a + b * b + c * c = s * s" and "d * d + e * e + f * f = s * s"
    and "g * g + h * h + i * i = s * s"
    and "a * d + b * e + c * f = 0" and "a * g + b * h + c * i = 0" and "d * g + e * h + f * i = 0"
  unfolding s_def a_def b_def c_def d_def e_def f_def g_def h_def i_def
  by algebra+

lemma as_matrix_explicit:
  "as_matrix [x, y, z, w] =
      [[x * x - y * y - z * z + w * w, 2 * (x * y - z * w), 2 * (x * z + y * w)],
       [2 * (x * y + z * w), - (x * x) + y * y - z * z + w * w, 2 * (y * z - x * w)],
       [2 * (x * z - y * w), 2 * (y * z + x * w), - (x * x) - y * y + z * z + w * w]]"
  by (simp add: as_matrix_def)

lemma as_matrix_orthonormal:
  fixes x y z w :: real
  assumes "x * x + y * y + z * z + w * w = 1"
  shows "orthonormal (as_matrix [x, y, z, w])"
proof -
  have u: "(x * x - y * y - z * z + w * w) * (x * x - y * y - z * z + w * w) +
      2 * (x * y - z * w) * (2 * (x * y - z * w)) +
      2 * (x * z + y * w) * (2 * (x * z + y * w)) = 1"
    "2 * (x * y + z * w) * (2 * (x * y + z * w)) +
      (- (x * x) + y * y - z * z + w * w) * (- (x * x) + y * y - z * z + w * w) +
      2 * (y * z - x * w) * (2 * (y * z - x * w)) = 1"
    "2 * (x * z - y * w) * (2 * (x * z - y * w)) +
      2 * (y * z + x * w) * (2 * (y * z + x * w)) +
      (- (x * x) - y * y + z * z + w * w) * (- (x * x) - y * y + z * z + w * w) = 1"
    using assms by algebra+
  show ?thesis
    unfolding as_matrix_explicit orthonormal_3x3
    by (intro conjI u quat_rows(4-6))
qed

lemma from_quat_unit:
  assumes "from_quat q = Inr u"
  shows "\<exists>x y z w. u = [x, y, z, w] \<and> x * x + y * y + z * z + w * w = 1"
proof -
  have len: "length q = 4" using assms by (auto simp: from_quat_def split: if_splits)
  then obtain a b c d where q: "q = [a, b, c, d]"
    by (auto simp: length_Suc_conv numeral_eq_Suc)
  define s where "s = a * a + (b * b + (c * c + d * d))"
  define n where "n = sqrt s"
  have s0: "0 \<le> s" unfolding s_def by (rule sumsq4_nonneg)
  have n0: "n \<noteq> 0" and u: "u = [a / n, b / n, c / n, d / n]"
    using assms by (auto simp: from_quat_def q n_def s_def Let_def split: if_splits)
  have nn: "n * n = s" using s0 by (simp add: n_def)
  have "a / n * (a / n) + b / n * (b / n) + c / n * (c / n) + d / n * (d / n) = s / (n * n)"
    by (simp add: s_def add_divide_distrib)
  also have "\<dots> = 1" using n0 by (simp add: nn[symmetric])
  finally show ?thesis using u by blast
qed

lemma quat_to_matrix_orthonormal:
  assumes "quat_to_matrix q = Inr C"
  shows "\<exists>a b c d e f g h i. C = [[a, b, c], [d, e, f], [g, h, i]] \<and> orthonormal C"
proof -
  obtain u where u: "from_quat q = Inr u" and C: "C = as_matrix u"
    using assms by (auto simp: quat_to_matrix_def split: sum.splits)
  obtain x y z w where "u = [x, y, z, w]" "x * x + y * y + z * z + w * w = 1"
    using from_quat_unit[OF u] by blast
  then show ?thesis
    using as_matrix_orthonormal[of x y z w] C by (simp add: as_matrix_explicit)
qed

lemma velodyne_ex2:
  "velodyne_frame_from_imu [1, 0, 0, 0] [0, 0, 0] (Some scale4)
     = Inr ([[1 / 2, 0, 0, 0], [0, 1 / 2, 0, 0], [0, 0, 1 / 2, 0], [0, 0, 0, 1]],
            [[1 / 2, 0, 0], [0, 1 / 2, 0], [0, 0, 1 / 2]])"
  by (simp add: velodyne_frame_from_imu_def reorder4 quat_to_matrix_closed extrinsic_def inv_scale4
      matmul_def mat_mul_def to_T_def ncols_def col_def dot_def mat_vec_def set_at_def upt3 upt4)

text \<open>
  C4, as stated, fails: \<^verbatim>\<open>velodyne_frame_from_imu\<close> has no orthonormality check and no
  validation error. With the supplied extrinsic \<open>diag(2, 2, 2, 1)\<close> it returns successfully,
  and both the rotation block of \<open>T\<close> and \<open>C_yaw\<close> are \<open>diag(1/2, 1/2, 1/2)\<close>.
\<close>

theorem velodyne_unchecked_counterexample:
  "velodyne_frame_from_imu [1, 0, 0, 0] [0, 0, 0] (Some scale4)
     = Inr ([[1 / 2, 0, 0, 0], [0, 1 / 2, 0, 0], [0, 0, 1 / 2, 0], [0, 0, 0, 1]],
            [[1 / 2, 0, 0], [0, 1 / 2, 0], [0, 0, 1 / 2]]) \<and>
   \<not> orthonormal [[1 / 2, 0, 0], [0, 1 / 2, 0], [0, 0, 1 / 2]]"
  by (simp add: velodyne_ex2 orthonormal_3x3)

text \<open>
  Multiplying on the right by an orthonormal matrix keeps the dot products of the rows, so
  the product is orthonormal exactly when the left factor is.
\<close>

lemma mat_mul_3x3:
  "mat_mul [[a, b, c], [d, e, f], [g, h, i]] [[r, s, t], [u, v, w], [x, y, z]] =
     [[a * r + b * u + c * x, a * s + b * v + c * y, a * t + b * w + c * z],
      [d * r + e * u + f * x, d * s + e * v + f * y, d * t + e * w + f * z],
      [g * r + h * u + i * x, g * s + h * v + i * y, g * t + h * w + i * z]]"
  by (simp add: mat_mul_def ncols_def col_def dot_def upt3)

lemma row_dot_rotated:
  fixes a b c d e f :: real
  assumes "r * r + s * s + t * t = 1" "u * u + v * v + w * w = 1" "x * x + y * y + z * z = 1"
    and "r * u + s * v + t * w = 0" "r * x + s * y + t * z = 0" "u * x + v * y + w * z = 0"
  shows "(a * r + b * u + c * x) * (d * r + e * u + f * x) +
         (a * s + b * v + c * y) * (d * s + e * v + f * y) +
         (a * t + b * w + c * z) * (d * t + e * w + f * z) = a * d + b * e + c * f"
proof -
  have "(a * r + b * u + c * x) * (d * r + e * u + f * x) +
         (a * s + b * v + c * y) * (d * s + e * v + f * y) +
         (a * t + b * w + c * z) * (d * t + e * w + f * z)
      = a * d * (r * r + s * s + t * t) + b * e * (u * u + v * v + w * w)
        + c * f * (x * x + y * y + z * z)
        + (a * e + b * d) * (r * u + s * v + t * w)
        + (a * f + c * d) * (r * x + s * y + t * z)
        + (b * f + c * e) * (u * x + v * y + w * z)"
    by (simp add: algebra_simps)
  then show ?thesis by (simp add: assms)
qed

lemma orthonormal_mul_iff:
  assumes "orthonormal [[r, s, t], [u, v, w], [x, y, z]]"
  shows "orthonormal (mat_mul [[a, b, c], [d, e, f], [g, h, i]] [[r, s, t], [u, v, w], [x, y, z]])
         \<longleftrightarrow> orthonormal [[a, b, c], [d, e, f], [g, h, i]]"
proof -
  note R = assms[unfolded orthonormal_3x3]
  have rd: "\<And>a b c d e f :: real.
         (a * r + b * u + c * x) * (d * r + e * u + f * x) +
         (a * s + b * v + c * y) * (d * s + e * v + f * y) +
         (a * t + b * w + c * z) * (d * t + e * w + f * z) = a * d + b * e + c * f"
    using R by (intro row_dot_rotated) simp_all
  show ?thesis
    unfolding mat_mul_3x3 orthonormal_3x3 rd ..
qed

lemma linalg_inv_shape:
  assumes "linalg_inv M = Inr T"
  shows "length T = length M \<and> (\<forall>row \<in> set T. length row = length M)"
  using assms by (auto simp: linalg_inv_def Let_def split: if_splits)

lemma extrinsic_shape:
  assumes e: "extrinsic T_iv = Inr (T_vi, C_vi)" and c: "ncols T_vi = 4"
  shows "has_shape 4 4 T_vi \<and> C_vi = map (take 3) (take 3 T_vi)"
proof (cases T_iv)
  case None
  then show ?thesis using e by (auto simp: extrinsic_default has_shape_def)
next
  case (Some M)
  then have inv: "linalg_inv M = Inr T_vi" and C: "C_vi = map (take 3) (take 3 T_vi)"
    using e by (auto simp: extrinsic_def split: sum.splits)
  have sh: "length T_vi = length M" "\<forall>row \<in> set T_vi. length row = length M"
    using linalg_inv_shape[OF inv] by simp_all
  have "T_vi \<noteq> []" using c by (auto simp: ncols_def)
  then have "length (hd T_vi) = 4" "hd T_vi \<in> set T_vi"
    using c by (cases T_vi; simp add: ncols_def)+
  then have "length M = 4" using sh(2) by auto
  then show ?thesis using sh C by (simp add: has_shape_def)
qed

lemma shape_4x4_explicit:
  assumes "has_shape 4 4 T"
  shows "\<exists>a0 a1 a2 a3 b0 b1 b2 b3 c0 c1 c2 c3 d0 d1 d2 d3.
           T = [[a0, a1, a2, a3], [b0, b1, b2, b3], [c0, c1, c2, c3], [d0, d1, d2, d3]]"
proof -
  obtain r0 r1 r2 r3 where T: "T = [r0, r1, r2, r3]"
    using assms by (auto simp: has_shape_def length_Suc_conv numeral_eq_Suc)
  have l: "length r0 = 4" "length r1 = 4" "length r2 = 4" "length r3 = 4"
    using assms by (simp_all add: has_shape_def T)
  have four: "\<And>r :: real list. length r = 4 \<Longrightarrow> \<exists>a b c d. r = [a, b, c, d]"
    by (auto simp: length_Suc_conv numeral_eq_Suc)
  from four[OF l(1)] four[OF l(2)] four[OF l(3)] four[OF l(4)] T show ?thesis by blast
qed

lemma general_block:
  "map (take 3) (take 3 (mat_mul
       [[a0, a1, a2, a3], [b0, b1, b2, b3], [c0, c1, c2, c3], [d0, d1, d2, d3]]
       (to_T [[a, b, c], [d, e, f], [g, h, i]] [p, q, r])))
   = mat_mul [[a0, a1, a2], [b0, b1, b2], [c0, c1, c2]] [[a, b, c], [d, e, f], [g, h, i]]"
  by (simp add: mat_mul_def to_T_def ncols_def col_def dot_def upt3 upt4)

text \<open>
  The pieces of a successful call: the extrinsic resolved to \<open>(T_vi, C_vi)\<close> with four
  columns, the two quaternions converted to orthonormal \<open>3 \<times> 3\<close> matrices, and the outputs
  are the products \<open>T_vi \<cdot> to_T(C_io, \<dots>)\<close> and \<open>C_vi \<cdot> C_io_yaw\<close>.
\<close>

lemma velodyne_success_parts:
  assumes "velodyne_frame_from_imu raw_heading r_io T_iv = Inr (T_vo, C_vo_yaw)"
  shows "\<exists>T_vi C_vi C_io C_io_yaw p q r.
           extrinsic T_iv = Inr (T_vi, C_vi) \<and> ncols T_vi = 4 \<and>
           orthonormal C_io \<and> orthonormal C_io_yaw \<and>
           (\<exists>a b c d e f g h i. C_io = [[a, b, c], [d, e, f], [g, h, i]]) \<and>
           (\<exists>a b c d e f g h i. C_io_yaw = [[a, b, c], [d, e, f], [g, h, i]]) \<and>
           T_vo = mat_mul T_vi (to_T C_io [p, q, r]) \<and>
           C_vo_yaw = mat_mul C_vi C_io_yaw"
proof -
  from assms obtain h C_io T_vi C_vi hy C_io_yaw where
      cio: "quat_to_matrix h = Inr C_io" and r: "length r_io = 3"
      and e: "extrinsic T_iv = Inr (T_vi, C_vi)"
      and nc: "ncols T_vi = length (to_T C_io (map uminus (mat_vec C_io r_io)))"
      and T: "T_vo = mat_mul T_vi (to_T C_io (map uminus (mat_vec C_io r_io)))"
      and cy: "quat_to_matrix hy = Inr C_io_yaw" and Y: "C_vo_yaw = mat_mul C_vi C_io_yaw"
    by (auto simp: velodyne_frame_from_imu_def matmul_def Let_def
        split: sum.splits if_splits prod.splits)
  obtain a b c d e' f g k i where C: "C_io = [[a, b, c], [d, e', f], [g, k, i]]" and oC: "orthonormal C_io"
    using quat_to_matrix_orthonormal[OF cio] by blast
  obtain a' b' c' d' e'' f' g' k' i' where
      Cy: "C_io_yaw = [[a', b', c'], [d', e'', f'], [g', k', i']]" and oY: "orthonormal C_io_yaw"
    using quat_to_matrix_orthonormal[OF cy] by blast
  obtain p q s where rio: "r_io = [p, q, s]"
    using r by (auto simp: length_Suc_conv numeral_eq_Suc)
  have roi: "\<exists>p q r. map uminus (mat_vec C_io r_io) = [p, q, r]"
    by (simp add: C mat_vec_def)
  then obtain p' q' r' where roi': "map uminus (mat_vec C_io r_io) = [p', q', r']" by auto
  have "length (to_T C_io (map uminus (mat_vec C_io r_io))) = 4"
    by (simp add: C to_T_def mat_vec_def)
  with nc have "ncols T_vi = 4" by simp
  moreover have "T_vo = mat_mul T_vi (to_T C_io [p', q', r'])"
    using T roi' by simp
  moreover have "\<exists>a b c d e f g h i. C_io = [[a, b, c], [d, e, f], [g, h, i]]"
    using C by simp
  moreover have "\<exists>a b c d e f g h i. C_io_yaw = [[a, b, c], [d, e, f], [g, h, i]]"
    using Cy by simp
  ultimately have "extrinsic T_iv = Inr (T_vi, C_vi) \<and> ncols T_vi = 4 \<and>
           orthonormal C_io \<and> orthonormal C_io_yaw \<and>
           (\<exists>a b c d e f g h i. C_io = [[a, b, c], [d, e, f], [g, h, i]]) \<and>
           (\<exists>a b c d e f g h i. C_io_yaw = [[a, b, c], [d, e, f], [g, h, i]]) \<and>
           T_vo = mat_mul T_vi (to_T C_io [p', q', r']) \<and>
           C_vo_yaw = mat_mul C_vi C_io_yaw"
    using e oC oY Y by simp
  then show ?thesis
    by (intro exI)
qed

text \<open>
  C4, amended. \<^verbatim>\<open>velodyne_frame_from_imu\<close> checks nothing and raises no validation error.
  Whenever it returns \<open>(T, C_yaw)\<close>, \<open>C_yaw\<close> and the rotation block of \<open>T\<close> are orthonormal
  exactly when the rotation block \<open>C_vi\<close> of the extrinsic is (over the reals): a rotation
  that is not orthonormal never appears with the default extrinsic or with a supplied \<open>T_iv\<close>
  whose inverse has an orthonormal rotation block, and always appears with any other
  \<open>T_iv\<close>. The call returns whenever \<open>q0\<close>, \<open>q3\<close> are not both zero, the position has three
  entries and the extrinsic resolves to a \<open>4 \<times> 4\<close> transform, whatever its rotation block.
\<close>

theorem velodyne_rotations_unchecked:
  "(velodyne_frame_from_imu raw_heading r_io T_iv = Inr (T_vo, C_vo_yaw) \<longrightarrow>
      (\<exists>T_vi C_vi. extrinsic T_iv = Inr (T_vi, C_vi) \<and>
         (orthonormal C_vo_yaw \<longleftrightarrow> orthonormal C_vi) \<and>
         (orthonormal (map (take 3) (take 3 T_vo)) \<longleftrightarrow> orthonormal C_vi))) \<and>
   (length r_io = 3 \<and> q0 * q0 + q3 * q3 \<noteq> 0 \<and>
    extrinsic T_iv = Inr (T_vi', C_vi') \<and> has_shape 4 4 T_vi' \<longrightarrow>
      (\<exists>T C. velodyne_frame_from_imu [q0, q1, q2, q3] r_io T_iv = Inr (T, C)))"
proof (intro conjI impI)
  assume "velodyne_frame_from_imu raw_heading r_io T_iv = Inr (T_vo, C_vo_yaw)"
  from velodyne_success_parts[OF this] obtain T_vi C_vi C_io C_io_yaw p q r where
      e: "extrinsic T_iv = Inr (T_vi, C_vi)" and nc: "ncols T_vi = 4"
      and oC: "orthonormal C_io" and oY: "orthonormal C_io_yaw"
      and C: "\<exists>a b c d e f g h i. C_io = [[a, b, c], [d, e, f], [g, h, i]]"
      and Cy: "\<exists>a b c d e f g h i. C_io_yaw = [[a, b, c], [d, e, f], [g, h, i]]"
      and T: "T_vo = mat_mul T_vi (to_T C_io [p, q, r])"
      and Y: "C_vo_yaw = mat_mul C_vi C_io_yaw"
    by blast
  have sh: "has_shape 4 4 T_vi" and blk: "C_vi = map (take 3) (take 3 T_vi)"
    using extrinsic_shape[OF e nc] by simp_all
  obtain a0 a1 a2 a3 b0 b1 b2 b3 c0 c1 c2 c3 d0 d1 d2 d3 where
      Tvi: "T_vi = [[a0, a1, a2, a3], [b0, b1, b2, b3], [c0, c1, c2, c3], [d0, d1, d2, d3]]"
    using shape_4x4_explicit[OF sh] by blast
  have Cvi: "C_vi = [[a0, a1, a2], [b0, b1, b2], [c0, c1, c2]]"
    by (simp add: blk Tvi)
  obtain a b c d e' f g h i where Cio: "C_io = [[a, b, c], [d, e', f], [g, h, i]]"
    using C by blast
  obtain a' b' c' d' e'' f' g' h' i' where
      Cioy: "C_io_yaw = [[a', b', c'], [d', e'', f'], [g', h', i']]"
    using Cy by blast
  have y: "orthonormal C_vo_yaw \<longleftrightarrow> orthonormal C_vi"
    unfolding Y Cvi Cioy using oY[unfolded Cioy] by (rule orthonormal_mul_iff)
  have "map (take 3) (take 3 T_vo) = mat_mul C_vi C_io"
    unfolding T Tvi Cvi Cio by (rule general_block)
  moreover have "orthonormal (mat_mul C_vi C_io) \<longleftrightarrow> orthonormal C_vi"
    unfolding Cvi Cio using oC[unfolded Cio] by (rule orthonormal_mul_iff)
  ultimately have t: "orthonormal (map (take 3) (take 3 T_vo)) \<longleftrightarrow> orthonormal C_vi"
    by simp
  from e y t show "\<exists>T_vi C_vi. extrinsic T_iv = Inr (T_vi, C_vi) \<and>
         (orthonormal C_vo_yaw \<longleftrightarrow> orthonormal C_vi) \<and>
         (orthonormal (map (take 3) (take 3 T_vo)) \<longleftrightarrow> orthonormal C_vi)"
    by blast
next
  assume a: "length r_io = 3 \<and> q0 * q0 + q3 * q3 \<noteq> 0 \<and>
    extrinsic T_iv = Inr (T_vi', C_vi') \<and> has_shape 4 4 T_vi'"
  then have r: "length r_io = 3" and n: "q0 * q0 + q3 * q3 \<noteq> 0"
    and e: "extrinsic T_iv = Inr (T_vi', C_vi')" and s: "has_shape 4 4 T_vi'"
    by simp_all
  have n4: "q1 * q1 + (q2 * q2 + (q3 * q3 + - q0 * - q0)) \<noteq> 0"
    using yaw_norm_pos[OF n, of q1 q2] by simp
  have ny: "0 * 0 + (0 * 0 + (q3 * q3 + - q0 * - q0)) \<noteq> (0::real)"
    using n by (simp add: add.commute)
  obtain C_io where cio: "quat_to_matrix [q1, q2, q3, - q0] = Inr C_io" and l: "length C_io = 3"
    using quat_to_matrix_closed[OF n4] by simp
  obtain C_io_yaw where cy: "quat_to_matrix [0, 0, q3, - q0] = Inr C_io_yaw" and ly: "length C_io_yaw = 3"
    using quat_to_matrix_closed[OF ny] by simp
  have lt: "length (to_T C_io (map uminus (mat_vec C_io r_io))) = 4"
    using l by (simp add: to_T_def mat_vec_def)
  have c4: "ncols T_vi' = 4" using s by (rule ncols_4)
  have c3: "ncols C_vi' = 3" using e s by (rule extrinsic_block_cols)
  show "\<exists>T C. velodyne_frame_from_imu [q0, q1, q2, q3] r_io T_iv = Inr (T, C)"
    using r by (simp add: velodyne_frame_from_imu_def reorder4 cio e matmul_def lt c4 c3 set_at_def cy ly Let_def)
qed

lemma velodyne_ex3:
  "velodyne_frame_from_imu [1, 0, 0, 0] [1, 2, 3] None
     = Inr ([[0, 1, 0, - 2], [- 1, 0, 0, 1], [0, 0, 1, - (69 / 20)], [0, 0, 0, 1]],
            [[0, 1, 0], [- 1, 0, 0], [0, 0, 1]])"
  by (simp add: velodyne_frame_from_imu_def reorder4 quat_to_matrix_closed extrinsic_default
      matmul_def mat_mul_def to_T_def ncols_def col_def dot_def mat_vec_def set_at_def upt3 upt4)

theorem velodyne_rotations_unchecked_witness:
  "velodyne_frame_from_imu [1, 0, 0, 0] [1, 2, 3] None
     = Inr ([[0, 1, 0, - 2], [- 1, 0, 0, 1], [0, 0, 1, - (69 / 20)], [0, 0, 0, 1]],
            [[0, 1, 0], [- 1, 0, 0], [0, 0, 1]]) \<and>
   orthonormal [[0, 1, 0], [- 1, 0, 0], [0::real, 0, 1]] \<and>
   orthonormal (map (take 3) (take 3 [[0, 1, 0, - 2], [- 1, 0, 0, 1], [0, 0, 1, - (69 / 20)], [0::real, 0, 0, 1]])) \<and>
   length [0, 0, 0 :: real] = 3 \<and> (1::real) * 1 + 0 * 0 \<noteq> 0 \<and>
   extrinsic (Some scale4)
     = Inr ([[1 / 2, 0, 0, 0], [0, 1 / 2, 0, 0], [0, 0, 1 / 2, 0], [0, 0, 0, 1]],
            [[1 / 2, 0, 0], [0, 1 / 2, 0], [0, 0, 1 / 2]]) \<and>
   has_shape 4 4 [[1 / 2, 0, 0, 0], [0, 1 / 2, 0, 0], [0, 0, 1 / 2, 0], [0, 0, 0, 1]] \<and>
   (\<exists>T C. velodyne_frame_from_imu [1, 0, 0, 0] [0, 0, 0] (Some scale4) = Inr (T, C))"
proof -
  let ?T = "[[0, 1, 0, - 2], [- 1, 0, 0, 1], [0, 0, 1, - (69 / 20)], [0, 0, 0, 1]] :: mat"
  let ?C = "[[0, 1, 0], [- 1, 0, 0], [0, 0, 1]] :: mat"
  let ?S = "[[1 / 2, 0, 0, 0], [0, 1 / 2, 0, 0], [0, 0, 1 / 2, 0], [0, 0, 0, 1]] :: mat"
  let ?B = "[[1 / 2, 0, 0], [0, 1 / 2, 0], [0, 0, 1 / 2]] :: mat"
  have oc: "orthonormal ?C" by (simp add: orthonormal_3x3)
  have es: "extrinsic (Some scale4) = Inr (?S, ?B)"
    by (simp add: extrinsic_def inv_scale4)
  have hs: "has_shape 4 4 ?S" by (simp add: has_shape_def)
  have first: "orthonormal ?C \<and> orthonormal (map (take 3) (take 3 ?T))"
    using velodyne_rotations_unchecked[of "[1, 0, 0, 0]" "[1, 2, 3]" None ?T ?C]
      velodyne_ex3 oc by (auto simp: extrinsic_default)
  have second: "\<exists>T C. velodyne_frame_from_imu [1, 0, 0, 0] [0, 0, 0] (Some scale4) = Inr (T, C)"
    using velodyne_rotations_unchecked[of _ "[0, 0, 0]" "Some scale4" _ _ 1 0 ?S ?B 0 0] es hs
    by simp
  show ?thesis using first second velodyne_ex3 es hs by simp
qed

end
